theory Spec2Isabelle
  imports Main "HOL-Library.Word"
begin

unbundle bit_operations_syntax

section \<open>Values, exceptions and the operating system's entropy\<close>

type_synonym byte = "8 word"
type_synonym bytes = "byte list"

text \<open>
  The exceptions the modelled code raises itself or lets through from the libraries it
  calls, each with what \<open>str(e)\<close> is made of: the message it was raised with, for
  \<open>AttributeError\<close> the type and the attribute, for \<open>KeyError\<close> the key. \<open>InvalidTag\<close>,
  \<open>asyncio.TimeoutError\<close> and aiortc's \<open>InvalidStateError\<close> are raised without
  arguments. The code tells its own \<open>ValueError\<close>s apart by the message only.
\<close>

datatype exn =
    ValueError string
  | InvalidTag
  | BinasciiError string
  | UnicodeEncodeError string
  | UnicodeDecodeError string
  | OverflowError string
  | AttributeError string string
  | KeyError string
  | TypeError string
  | JSONDecodeError string
  | AsyncioTimeoutError
  | InvalidStateError
  | OSError string
  | SocketioConnectionError string
  | ConnectionError string

text \<open>
  \<open>repr\<close> of a string that holds no quote and no backslash, as the names and keys
  of this program are: the string in single quotes.
\<close>

definition py_repr :: "string \<Rightarrow> string" where
  "py_repr s = [CHR 0x27] @ s @ [CHR 0x27]"

text \<open>
  \<open>str(e)\<close>. An exception raised without arguments prints as the empty string; a
  \<open>KeyError\<close> prints the \<open>repr\<close> of its key, which for the keys this program looks up
  (letters and underscores) is the key in single quotes.
\<close>

definition exn_str :: "exn \<Rightarrow> string" where
  "exn_str e =
     (case e of
        ValueError m \<Rightarrow> m
      | InvalidTag \<Rightarrow> []
      | BinasciiError m \<Rightarrow> m
      | UnicodeEncodeError m \<Rightarrow> m
      | UnicodeDecodeError m \<Rightarrow> m
      | OverflowError m \<Rightarrow> m
      | AttributeError ty a \<Rightarrow> py_repr ty @ '' object has no attribute '' @ py_repr a
      | KeyError k \<Rightarrow> py_repr k
      | TypeError m \<Rightarrow> m
      | JSONDecodeError m \<Rightarrow> m
      | AsyncioTimeoutError \<Rightarrow> []
      | InvalidStateError \<Rightarrow> []
      | OSError m \<Rightarrow> m
      | SocketioConnectionError m \<Rightarrow> m
      | ConnectionError m \<Rightarrow> m)"


text \<open>
  \<open>os.urandom(n)\<close>: the entropy source is a sequence of bytes and a count of the bytes
  already handed out; a call returns the next \<open>n\<close> bytes and advances the count.
\<close>

record os_entropy =
  source :: "nat \<Rightarrow> byte"
  consumed :: nat

definition os_urandom :: "nat \<Rightarrow> os_entropy \<Rightarrow> bytes \<times> os_entropy" where
  "os_urandom n os =
     (map (source os) [consumed os ..< consumed os + n], os\<lparr>consumed := consumed os + n\<rparr>)"

section \<open>The libraries behind crypto\_utils.py\<close>

text \<open>
  RSA keys as the numbers they are made of. \<open>__init__\<close> asks for the public exponent
  65537; the modulus and the private exponent come from the key generator.
\<close>

datatype rsa_private_key = RSAPrivateKey (priv_modulus: nat) (priv_exponent: nat)
datatype rsa_public_key = RSAPublicKey (pub_modulus: nat) (pub_exponent: nat)

datatype key_encoding = PEM | DER
datatype public_format = SubjectPublicKeyInfo | PKCS1

text \<open>
  The library calls of crypto\_utils.py, one field per call, each returning the raised
  exception on the left. A public key object is used through attribute lookup
  (\<open>key_attr\<close>: the method bound to a name, if the object has it; \<open>key_type_name\<close>:
  the name of its class, which Python puts into the \<open>AttributeError\<close>) and \<open>encrypt\<close>;
  \<open>aesgcm_encrypt k n d\<close> stands for \<open>AESGCM(k).encrypt(n, d, None)\<close>, and likewise
  \<open>aesgcm_decrypt\<close>, whose \<open>InvalidTag\<close> is the failed authentication.
\<close>

record pylib =
  str_encode :: "string \<Rightarrow> exn + bytes"
  bytes_decode :: "bytes \<Rightarrow> exn + string"
  urlsafe_b64encode :: "bytes \<Rightarrow> bytes"
  urlsafe_b64decode :: "bytes \<Rightarrow> exn + bytes"
  aesgcm_encrypt :: "bytes \<Rightarrow> bytes \<Rightarrow> bytes \<Rightarrow> exn + bytes"
  aesgcm_decrypt :: "bytes \<Rightarrow> bytes \<Rightarrow> bytes \<Rightarrow> exn + bytes"
  key_attr :: "string \<Rightarrow> (rsa_public_key \<Rightarrow> key_encoding \<Rightarrow> public_format \<Rightarrow> exn + bytes) option"
  key_type_name :: string
  load_pem_public_key :: "bytes \<Rightarrow> exn + rsa_public_key"
  oaep_encrypt :: "rsa_public_key \<Rightarrow> bytes \<Rightarrow> exn + bytes"
  oaep_decrypt :: "rsa_private_key \<Rightarrow> bytes \<Rightarrow> exn + bytes"

text \<open>
  The argument checks \<open>AESGCM\<close> documents for decryption, in their order: the key is 16,
  24 or 32 bytes long (checked when the cipher object is made), the nonce 8 to 128 bytes,
  and data shorter than the 16 bytes of a tag cannot be authenticated. A library makes
  these checks when it answers with the exception of the first check that fails.
\<close>

definition aesgcm_key_error :: exn where
  "aesgcm_key_error = ValueError ''AESGCM key must be 128, 192, or 256 bits.''"

definition aesgcm_nonce_error :: exn where
  "aesgcm_nonce_error = ValueError ''Nonce must be between 8 and 128 bytes''"

definition aesgcm_decrypt_refusal :: "bytes \<Rightarrow> bytes \<Rightarrow> bytes \<Rightarrow> exn option" where
  "aesgcm_decrypt_refusal k n d =
     (if length k \<notin> {16, 24, 32} then Some aesgcm_key_error
      else if length n < 8 \<or> 128 < length n then Some aesgcm_nonce_error
      else if length d < 16 then Some InvalidTag
      else None)"

definition aesgcm_decrypt_checks :: "pylib \<Rightarrow> bool" where
  "aesgcm_decrypt_checks L =
     (\<forall>k n d x. aesgcm_decrypt_refusal k n d = Some x \<longrightarrow> aesgcm_decrypt L k n d = Inl x)"

section \<open>CryptoSession (crypto\_utils.py)\<close>

record CryptoSession =
  private_key :: rsa_private_key
  public_key :: rsa_public_key
  aes_key :: "bytes option"

text \<open>\<open>__init__\<close>: a fresh key pair, the public key taken from it, no AES key yet.\<close>

definition CryptoSession_init :: "rsa_private_key \<Rightarrow> CryptoSession" where
  "CryptoSession_init generated =
     \<lparr> private_key = generated,
       public_key = RSAPublicKey (priv_modulus generated) 65537,
       aes_key = None \<rparr>"

text \<open>Python's \<open>not self.aes_key\<close>: true for \<open>None\<close> and for the empty byte string.\<close>

definition not_aes_key :: "CryptoSession \<Rightarrow> bool" where
  "not_aes_key s = (case aes_key s of None \<Rightarrow> True | Some k \<Rightarrow> k = [])"

definition not_initialized :: exn where
  "not_initialized = ValueError ''AES key not initialized. Perform key exchange first.''"

definition integrity_failed :: exn where
  "integrity_failed = ValueError ''Decryption failed: data integrity check failed''"

text \<open>
  \<open>get_public_key_pem\<close>: calls the \<open>serialize\<close> attribute of the public key. Looking
  up an attribute the object does not have raises \<open>AttributeError\<close>, which names the
  object's class and the attribute.
\<close>

definition get_public_key_pem :: "pylib \<Rightarrow> CryptoSession \<Rightarrow> exn + string" where
  "get_public_key_pem L s =
     (case key_attr L ''serialize'' of
        None \<Rightarrow> Inl (AttributeError (key_type_name L) ''serialize'')
      | Some serialize \<Rightarrow>
          (case serialize (public_key s) PEM SubjectPublicKeyInfo of
             Inl e \<Rightarrow> Inl e
           | Inr public_pem \<Rightarrow> bytes_decode L public_pem))"

definition decrypt_rsa :: "pylib \<Rightarrow> CryptoSession \<Rightarrow> bytes \<Rightarrow> exn + bytes" where
  "decrypt_rsa L s encrypted_data =
     (case oaep_decrypt L (private_key s) encrypted_data of
        Inl e \<Rightarrow> Inl e
      | Inr plaintext \<Rightarrow> Inr plaintext)"

text \<open>
  \<open>exchange_aes_key\<close> returns the session as the call leaves it, with the exception if
  one was raised; the key is stored only when all three steps went through.
\<close>

definition exchange_aes_key :: "pylib \<Rightarrow> CryptoSession \<Rightarrow> string \<Rightarrow> exn option \<times> CryptoSession" where
  "exchange_aes_key L s encrypted_aes_key =
     (case str_encode L encrypted_aes_key of
        Inl e \<Rightarrow> (Some e, s)
      | Inr b64 \<Rightarrow>
          (case urlsafe_b64decode L b64 of
             Inl e \<Rightarrow> (Some e, s)
           | Inr encrypted_bytes \<Rightarrow>
               (case decrypt_rsa L s encrypted_bytes of
                  Inl e \<Rightarrow> (Some e, s)
                | Inr aes_key_bytes \<Rightarrow> (None, s\<lparr>aes_key := Some aes_key_bytes\<rparr>))))"

text \<open>
  \<open>generate_and_encrypt_aes_key\<close> stores the new key before it loads the peer's public
  key, so the key stays stored when a later step raises.
\<close>

definition generate_and_encrypt_aes_key ::
  "pylib \<Rightarrow> os_entropy \<Rightarrow> CryptoSession \<Rightarrow> string \<Rightarrow> (exn + string) \<times> CryptoSession \<times> os_entropy" where
  "generate_and_encrypt_aes_key L os s remote_public_key_pem =
     (let (aes_key_bytes, os') = os_urandom 32 os;
          s' = s\<lparr>aes_key := Some aes_key_bytes\<rparr>
      in case str_encode L remote_public_key_pem of
           Inl e \<Rightarrow> (Inl e, s', os')
         | Inr pem \<Rightarrow>
             (case load_pem_public_key L pem of
                Inl e \<Rightarrow> (Inl e, s', os')
              | Inr remote_pub_key \<Rightarrow>
                  (case oaep_encrypt L remote_pub_key aes_key_bytes of
                     Inl e \<Rightarrow> (Inl e, s', os')
                   | Inr encrypted_aes \<Rightarrow>
                       (case bytes_decode L (urlsafe_b64encode L encrypted_aes) of
                          Inl e \<Rightarrow> (Inl e, s', os')
                        | Inr encrypted_aes_b64 \<Rightarrow> (Inr encrypted_aes_b64, s', os')))))"

text \<open>
  \<open>encrypt_payload\<close>: the guard, the UTF-8 bytes, twelve fresh bytes of entropy as
  nonce, the AEAD call, the nonce put in front, base64url. The entropy is returned as
  the call leaves it.
\<close>

definition encrypt_payload ::
  "pylib \<Rightarrow> os_entropy \<Rightarrow> CryptoSession \<Rightarrow> string \<Rightarrow> (exn + string) \<times> os_entropy" where
  "encrypt_payload L os s plaintext =
     (if not_aes_key s then (Inl not_initialized, os)
      else case str_encode L plaintext of
        Inl e \<Rightarrow> (Inl e, os)
      | Inr plaintext_bytes \<Rightarrow>
          (let (nonce, os') = os_urandom 12 os
           in case aesgcm_encrypt L (the (aes_key s)) nonce plaintext_bytes of
                Inl e \<Rightarrow> (Inl e, os')
              | Inr ciphertext \<Rightarrow>
                  (let full_ciphertext = nonce @ ciphertext
                   in (bytes_decode L (urlsafe_b64encode L full_ciphertext), os'))))"

text \<open>
  \<open>decrypt_payload\<close>: the guard, then inside \<open>try\<close> the decoding, the split at twelve
  bytes (a Python slice: it never raises, it returns what is there), the AEAD call and
  the UTF-8 decoding. \<open>InvalidTag\<close> becomes the integrity \<open>ValueError\<close>; every other
  exception is raised again as it is.
\<close>

definition decrypt_try :: "pylib \<Rightarrow> CryptoSession \<Rightarrow> string \<Rightarrow> exn + string" where
  "decrypt_try L s encrypted_b64 =
     (case str_encode L encrypted_b64 of
        Inl e \<Rightarrow> Inl e
      | Inr b64 \<Rightarrow>
          (case urlsafe_b64decode L b64 of
             Inl e \<Rightarrow> Inl e
           | Inr full_ciphertext \<Rightarrow>
               (let nonce = take 12 full_ciphertext;
                    ciphertext = drop 12 full_ciphertext
                in case aesgcm_decrypt L (the (aes_key s)) nonce ciphertext of
                     Inl e \<Rightarrow> Inl e
                   | Inr plaintext_bytes \<Rightarrow> bytes_decode L plaintext_bytes)))"

definition decrypt_payload :: "pylib \<Rightarrow> CryptoSession \<Rightarrow> string \<Rightarrow> exn + string" where
  "decrypt_payload L s encrypted_b64 =
     (if not_aes_key s then Inl not_initialized
      else case decrypt_try L s encrypted_b64 of
        Inl InvalidTag \<Rightarrow> Inl integrity_failed
      | Inl e \<Rightarrow> Inl e
      | Inr plaintext \<Rightarrow> Inr plaintext)"


section \<open>The compute node (compute\_node.py)\<close>

text \<open>
  JSON values as \<open>json.loads\<close> returns them; an object is its list of members. Numbers
  are integers here: the only float of the protocol, the measured duration, is carried
  in whole microseconds.
\<close>

datatype json =
    JNull
  | JBool bool
  | JNum int
  | JStr string
  | JArr "json list"
  | JObj "(string \<times> json) list"

record jsonlib =
  json_loads :: "string \<Rightarrow> exn + json"
  json_dumps :: "json \<Rightarrow> string"

text \<open>\<open>type(v).__name__\<close>, as Python's error messages quote it.\<close>

definition py_type_name :: "json \<Rightarrow> string" where
  "py_type_name v =
     (case v of
        JNull \<Rightarrow> ''NoneType''
      | JBool b \<Rightarrow> ''bool''
      | JNum i \<Rightarrow> ''int''
      | JStr s \<Rightarrow> ''str''
      | JArr xs \<Rightarrow> ''list''
      | JObj members \<Rightarrow> ''dict'')"

text \<open>
  \<open>data.get(k)\<close>, \<open>data.get(k, d)\<close> and \<open>data[k]\<close>; only a dict has \<open>get\<close>. The
  handler subscripts \<open>data\<close> only after \<open>data.get\<close> went through, that is, a dict; what
  subscripting another value with a string raises is given as CPython 3.11 words it.
\<close>

definition dict_get :: "json \<Rightarrow> string \<Rightarrow> exn + json option" where
  "dict_get data k =
     (case data of
        JObj members \<Rightarrow> Inr (map_of members k)
      | _ \<Rightarrow> Inl (AttributeError (py_type_name data) ''get''))"

definition dict_get_default :: "json \<Rightarrow> string \<Rightarrow> json \<Rightarrow> exn + json" where
  "dict_get_default data k d =
     (case dict_get data k of
        Inl e \<Rightarrow> Inl e
      | Inr None \<Rightarrow> Inr d
      | Inr (Some v) \<Rightarrow> Inr v)"

definition dict_item :: "json \<Rightarrow> string \<Rightarrow> exn + json" where
  "dict_item data k =
     (case data of
        JObj members \<Rightarrow> (case map_of members k of None \<Rightarrow> Inl (KeyError k) | Some v \<Rightarrow> Inr v)
      | JArr xs \<Rightarrow> Inl (TypeError ''list indices must be integers or slices, not str'')
      | JStr s \<Rightarrow> Inl (TypeError (''string indices must be integers, not '' @ py_repr ''str''))
      | _ \<Rightarrow> Inl (TypeError (py_repr (py_type_name data) @ '' object is not subscriptable'')))"

text \<open>\<open>len(code)\<close>: defined on strings, lists and dicts, a \<open>TypeError\<close> on the rest.\<close>

definition py_len :: "json \<Rightarrow> exn + nat" where
  "py_len v =
     (case v of
        JStr s \<Rightarrow> Inr (length s)
      | JArr xs \<Rightarrow> Inr (length xs)
      | JObj members \<Rightarrow> Inr (length members)
      | _ \<Rightarrow> Inl (TypeError (''object of type '' @ py_repr (py_type_name v) @ '' has no len()'')))"

subsection \<open>The data channel and the session registry\<close>

text \<open>
  A data channel is open or not, and keeps what was sent on it. \<open>send\<close> and \<open>close\<close>
  of aiortc's \<open>RTCDataChannel\<close> are plain methods: \<open>send\<close> raises \<open>InvalidStateError\<close>
  on a channel that is not open, and otherwise hands the message over and returns
  \<open>None\<close>. The handler writes \<open>await channel.send(...)\<close> and \<open>await channel.close()\<close>:
  the call is made, and then awaiting the \<open>None\<close> it returned raises \<open>TypeError\<close>.
\<close>

record data_channel =
  ready_open :: bool
  sent :: "string list"

definition channel_send :: "data_channel \<Rightarrow> string \<Rightarrow> exn + data_channel" where
  "channel_send ch msg =
     (if ready_open ch then Inr (ch\<lparr>sent := sent ch @ [msg]\<rparr>) else Inl InvalidStateError)"

definition channel_close :: "data_channel \<Rightarrow> data_channel" where
  "channel_close ch = ch\<lparr>ready_open := False\<rparr>"

definition await_none :: "exn + unit" where
  "await_none = Inl (TypeError ''object NoneType can't be used in 'await' expression'')"

record session_data =
  channel :: data_channel
  crypto :: CryptoSession
  remote_public_key :: "json option"

record node =
  sessions :: "string \<rightharpoonup> session_data"
  docker_available :: bool
  reconnect_count :: nat

subsection \<open>\_execute\_in\_sandbox\<close>

record ExecutionResult =
  exit_code :: int
  stdout :: string
  stderr :: string
  execution_time :: int

record cmd_result =
  returncode :: int
  cmd_stdout :: string
  cmd_stderr :: string

text \<open>
  What the host does for one invocation: creating the temporary file gives its path or
  raises; writing the code to it and closing it goes through or raises;
  \<open>asyncio.wait_for(self._run_command(cmd), 35.0)\<close> finishes with the process's result
  (whatever made the process end), times out or raises; the clock is read at the start
  and at the end.
\<close>

datatype wait_outcome = Finished cmd_result | WaitTimedOut | WaitRaised exn

record sandbox_env =
  named_temporary_file :: "exn + string"
  write_and_close :: "string \<Rightarrow> string \<Rightarrow> exn option"
  wait_for_run_command :: "string list \<Rightarrow> wait_outcome"
  time_at_start :: int
  time_at_end :: int

definition docker_cmd :: "string \<Rightarrow> string list" where
  "docker_cmd temp_file =
     [''docker'', ''run'', ''--rm'',
      ''--cpus=1'',
      ''--memory=1g'',
      ''--network=none'',
      ''--ulimit'', ''nofile=1024:1024'',
      ''--timeout=30'',
      ''--read-only'',
      ''-v'', temp_file @ '':/tmp/task.py:ro'',
      ''-v'', ''/tmp:/tmp:rw'',
      ''python:3.10'',
      ''python'', ''/tmp/task.py'']"

text \<open>The two \<open>except\<close> clauses of the executor, in their order.\<close>

definition sandbox_except :: "sandbox_env \<Rightarrow> exn \<Rightarrow> ExecutionResult" where
  "sandbox_except env e =
     (if e = AsyncioTimeoutError then
        \<lparr> exit_code = - 1, stdout = [], stderr = ''Execution timeout (30 seconds)'',
          execution_time = time_at_end env - time_at_start env \<rparr>
      else
        \<lparr> exit_code = - 1, stdout = [], stderr = ''Execution error: '' @ exn_str e,
          execution_time = time_at_end env - time_at_start env \<rparr>)"

text \<open>
  The body of the \<open>try\<close>: the exception it raises, or the finished process's result.
  \<open>code\<close> is whatever the task's JSON held under that key: \<open>f.write\<close> takes a string
  and raises \<open>TypeError\<close> on anything else.
\<close>

definition sandbox_try :: "sandbox_env \<Rightarrow> json \<Rightarrow> exn + cmd_result" where
  "sandbox_try env code =
     (case named_temporary_file env of
        Inl e \<Rightarrow> Inl e
      | Inr temp_file \<Rightarrow>
          (case (case code of
                   JStr c \<Rightarrow> write_and_close env temp_file c
                 | _ \<Rightarrow> Some (TypeError (''write() argument must be str, not '' @ py_type_name code))) of
             Some e \<Rightarrow> Inl e
           | None \<Rightarrow>
               (case wait_for_run_command env (docker_cmd temp_file) of
                  Finished result \<Rightarrow> Inr result
                | WaitTimedOut \<Rightarrow> Inl AsyncioTimeoutError
                | WaitRaised e \<Rightarrow> Inl e)))"

definition docker_not_available :: string where
  "docker_not_available = ''Docker not available. Please install Docker to enable sandbox execution.''"

definition execute_in_sandbox :: "node \<Rightarrow> sandbox_env \<Rightarrow> json \<Rightarrow> json \<Rightarrow> ExecutionResult" where
  "execute_in_sandbox self env code task_type =
     (if \<not> docker_available self then
        \<lparr> exit_code = - 1, stdout = [], stderr = docker_not_available, execution_time = 0 \<rparr>
      else
        (case sandbox_try env code of
           Inr result \<Rightarrow>
             \<lparr> exit_code = returncode result, stdout = cmd_stdout result,
               stderr = cmd_stderr result,
               execution_time = time_at_end env - time_at_start env \<rparr>
         | Inl e \<Rightarrow> sandbox_except env e))"

subsection \<open>\_handle\_message\<close>

text \<open>
  One call of the handler, run to its end: the result is the exception the handler's
  \<open>except\<close> clause caught and logged (if any), and the node and the entropy as the call
  leaves them. Whatever a branch changed before it raised stays changed.
\<close>

text \<open>
  The crypto calls take what the message held; a value that is not a string has no
  \<open>encode\<close>, which the call finds out after its guard.
\<close>

definition exchange_aes_key_json :: "pylib \<Rightarrow> CryptoSession \<Rightarrow> json \<Rightarrow> exn option \<times> CryptoSession" where
  "exchange_aes_key_json L s v =
     (case v of
        JStr encrypted_aes_key \<Rightarrow> exchange_aes_key L s encrypted_aes_key
      | _ \<Rightarrow> (Some (AttributeError (py_type_name v) ''encode''), s))"

definition decrypt_payload_json :: "pylib \<Rightarrow> CryptoSession \<Rightarrow> json \<Rightarrow> exn + string" where
  "decrypt_payload_json L s v =
     (case v of
        JStr encrypted_b64 \<Rightarrow> decrypt_payload L s encrypted_b64
      | _ \<Rightarrow> (if not_aes_key s then Inl not_initialized
              else Inl (AttributeError (py_type_name v) ''encode'')))"

text \<open>
  \<open>await channel.send(msg)\<close> on the session's channel: the registry entry with the
  channel as the call leaves it, and the exception raised, if any.
\<close>

definition await_channel_send ::
  "string \<Rightarrow> session_data \<Rightarrow> string \<Rightarrow> node \<Rightarrow> exn option \<times> node" where
  "await_channel_send session_id sd msg self =
     (case channel_send (channel sd) msg of
        Inl e \<Rightarrow> (Some e, self)
      | Inr ch \<Rightarrow>
          (let self1 = self\<lparr>sessions := (sessions self)(session_id \<mapsto> sd\<lparr>channel := ch\<rparr>)\<rparr>
           in case await_none of
                Inl e \<Rightarrow> (Some e, self1)
              | Inr u \<Rightarrow> (None, self1)))"

definition handle_send_public_key ::
  "pylib \<Rightarrow> jsonlib \<Rightarrow> string \<Rightarrow> json \<Rightarrow> session_data \<Rightarrow> node \<Rightarrow> exn option \<times> node" where
  "handle_send_public_key L J session_id data sd self =
     (case dict_item data ''public_key'' of
        Inl e \<Rightarrow> (Some e, self)
      | Inr pk \<Rightarrow>
          (let sd1 = sd\<lparr>remote_public_key := Some pk\<rparr>;
               self1 = self\<lparr>sessions := (sessions self)(session_id \<mapsto> sd1)\<rparr>
           in case get_public_key_pem L (crypto sd1) of
                Inl e \<Rightarrow> (Some e, self1)
              | Inr public_key_pem \<Rightarrow>
                  await_channel_send session_id sd1
                    (json_dumps J (JObj [(''type'', JStr ''key_exchange''),
                                         (''action'', JStr ''send_public_key''),
                                         (''public_key'', JStr public_key_pem)]))
                    self1))"

definition handle_send_aes_key ::
  "pylib \<Rightarrow> jsonlib \<Rightarrow> string \<Rightarrow> json \<Rightarrow> session_data \<Rightarrow> node \<Rightarrow> exn option \<times> node" where
  "handle_send_aes_key L J session_id data sd self =
     (case dict_item data ''encrypted_aes_key'' of
        Inl e \<Rightarrow> (Some e, self)
      | Inr encrypted_aes_b64 \<Rightarrow>
          (case exchange_aes_key_json L (crypto sd) encrypted_aes_b64 of
             (Some e, c) \<Rightarrow> (Some e, self)
           | (None, c) \<Rightarrow>
               (let sd1 = sd\<lparr>crypto := c\<rparr>;
                    self1 = self\<lparr>sessions := (sessions self)(session_id \<mapsto> sd1)\<rparr>
                in await_channel_send session_id sd1
                     (json_dumps J (JObj [(''type'', JStr ''key_exchange''),
                                          (''action'', JStr ''aes_key_received'')]))
                     self1)))"

definition result_json :: "ExecutionResult \<Rightarrow> json" where
  "result_json result =
     JObj [(''exit_code'', JNum (exit_code result)),
           (''stdout'', JStr (stdout result)),
           (''stderr'', JStr (stderr result)),
           (''execution_time'', JNum (execution_time result))]"

text \<open>
  Step 8 of the task branch, after the result was sent: \<open>await channel.close()\<close>, then
  the session is deleted from the registry if it is still there.
\<close>

definition close_and_forget :: "string \<Rightarrow> node \<Rightarrow> exn option \<times> node" where
  "close_and_forget session_id self =
     (let self1 =
            (case sessions self session_id of
               None \<Rightarrow> self
             | Some sd \<Rightarrow>
                 self\<lparr>sessions :=
                   (sessions self)(session_id \<mapsto> sd\<lparr>channel := channel_close (channel sd)\<rparr>)\<rparr>)
      in case await_none of
           Inl e \<Rightarrow> (Some e, self1)
         | Inr u \<Rightarrow> (None, self1\<lparr>sessions := (sessions self1)(session_id := None)\<rparr>))"

definition handle_encrypted_task ::
  "pylib \<Rightarrow> jsonlib \<Rightarrow> sandbox_env \<Rightarrow> string \<Rightarrow> json \<Rightarrow> session_data \<Rightarrow> node \<times> os_entropy
     \<Rightarrow> exn option \<times> node \<times> os_entropy" where
  "handle_encrypted_task L J env session_id data sd st =
     (let self = fst st; os = snd st in
      case dict_item data ''encrypted_data'' of
        Inl e \<Rightarrow> (Some e, self, os)
      | Inr encrypted_data \<Rightarrow>
      (case decrypt_payload_json L (crypto sd) encrypted_data of
        Inl e \<Rightarrow> (Some e, self, os)
      | Inr plaintext \<Rightarrow>
      (case json_loads J plaintext of
        Inl e \<Rightarrow> (Some e, self, os)
      | Inr task_json \<Rightarrow>
      (case dict_get_default task_json ''code'' (JStr []) of
        Inl e \<Rightarrow> (Some e, self, os)
      | Inr code \<Rightarrow>
      (case dict_get_default task_json ''type'' (JStr ''python_code'') of
        Inl e \<Rightarrow> (Some e, self, os)
      | Inr task_type \<Rightarrow>
      (case py_len code of
        Inl e \<Rightarrow> (Some e, self, os)
      | Inr n \<Rightarrow>
      (let result = execute_in_sandbox self env code task_type in
       case encrypt_payload L os (crypto sd) (json_dumps J (result_json result)) of
        (Inl e, os') \<Rightarrow> (Some e, self, os')
      | (Inr encrypted_result, os') \<Rightarrow>
      (case await_channel_send session_id sd
              (json_dumps J (JObj [(''type'', JStr ''encrypted_result''),
                                   (''encrypted_data'', JStr encrypted_result)]))
              self of
        (Some e, self1) \<Rightarrow> (Some e, self1, os')
      | (None, self1) \<Rightarrow>
          (case close_and_forget session_id self1 of (r, self2) \<Rightarrow> (r, self2, os'))))))))))"


definition handle_message ::
  "pylib \<Rightarrow> jsonlib \<Rightarrow> sandbox_env \<Rightarrow> string \<Rightarrow> string \<Rightarrow> node \<times> os_entropy
     \<Rightarrow> exn option \<times> node \<times> os_entropy" where
  "handle_message L J env session_id message st =
     (let self = fst st; os = snd st in
      case json_loads J message of
        Inl e \<Rightarrow> (Some e, self, os)
      | Inr data \<Rightarrow>
      (case dict_get data ''type'' of
        Inl e \<Rightarrow> (Some e, self, os)
      | Inr msg_type \<Rightarrow>
      (case sessions self session_id of
        None \<Rightarrow> (None, self, os)
      | Some sd \<Rightarrow>
          if msg_type = Some (JStr ''key_exchange'') then
            (case dict_get data ''action'' of
               Inl e \<Rightarrow> (Some e, self, os)
             | Inr action \<Rightarrow>
                 if action = Some (JStr ''send_public_key'') then
                   (case handle_send_public_key L J session_id data sd self of
                      (r, self') \<Rightarrow> (r, self', os))
                 else if action = Some (JStr ''send_aes_key'') then
                   (case handle_send_aes_key L J session_id data sd self of
                      (r, self') \<Rightarrow> (r, self', os))
                 else (None, self, os))
          else if msg_type = Some (JStr ''encrypted_task'') then
            handle_encrypted_task L J env session_id data sd st
          else (None, self, os))))"

subsection \<open>connect\_to\_signaling\<close>






section \<open>An executable instance of the libraries\<close>

text \<open>
  The theorems below hold for every library. To run them on concrete inputs, here is one
  instance that computes: base64url as the standard and CPython's decoder define it,
  UTF-8 on the code points a \<open>string\<close> holds, the argument checks \<open>AESGCM\<close> documents
  (key of 16, 24 or 32 bytes, nonce of 8 to 128 bytes, at most \<open>2^31 - 1\<close> bytes of data,
  at least the 16 bytes of a tag to decrypt) around a small stand-in cipher, a stand-in
  for RSA-OAEP, and the public key's documented method, \<open>public_bytes\<close>.
\<close>

definition b64_alphabet :: string where
  "b64_alphabet = ''ABCDEFGHIJKLMNOPQRSTUVWXYZabcdefghijklmnopqrstuvwxyz0123456789-_''"

fun b64_sextets :: "nat list \<Rightarrow> nat list" where
  "b64_sextets (a # b # c # rest) =
     [a div 4, (a mod 4) * 16 + b div 16, (b mod 16) * 4 + c div 64, c mod 64] @ b64_sextets rest"
| "b64_sextets [a, b] = [a div 4, (a mod 4) * 16 + b div 16, (b mod 16) * 4, 64]"
| "b64_sextets [a] = [a div 4, (a mod 4) * 16, 64, 64]"
| "b64_sextets [] = []"

definition b64_symbol :: "nat \<Rightarrow> byte" where
  "b64_symbol n = (if n < 64 then of_char (b64_alphabet ! n) else of_char CHR ''='')"

definition ref_b64encode :: "bytes \<Rightarrow> bytes" where
  "ref_b64encode bs = map b64_symbol (b64_sextets (map unat bs))"

text \<open>
  \<open>base64.urlsafe_b64decode\<close> maps \<open>-\<close> and \<open>_\<close> to \<open>+\<close> and \<open>/\<close> and calls
  \<open>binascii.a2b_base64\<close> without validation, so both alphabets count and every other
  byte is skipped. The scan keeps the position in the current group of four, the pads
  seen and the bits left over; a pad that completes a group from its third place on ends
  the scan, any other pad is skipped. Ending inside a group is an error.
\<close>

definition b64_value :: "byte \<Rightarrow> nat option" where
  "b64_value b =
     (let c = char_of (unat b) in
      if c = CHR ''+'' then Some 62
      else if c = CHR ''/'' then Some 63
      else if c \<in> set b64_alphabet then Some (length (takeWhile (\<lambda>x. x \<noteq> c) b64_alphabet))
      else None)"

fun a2b_scan :: "nat \<Rightarrow> nat \<Rightarrow> nat \<Rightarrow> bytes \<Rightarrow> nat list \<times> nat" where
  "a2b_scan quad_pos pads leftchar [] = ([], quad_pos)"
| "a2b_scan quad_pos pads leftchar (ch # rest) =
     (if ch = of_char CHR ''='' then
        (if 2 \<le> quad_pos \<and> 4 \<le> quad_pos + (pads + 1) then ([], 0)
         else a2b_scan quad_pos (if 2 \<le> quad_pos then pads + 1 else pads) leftchar rest)
      else
        (case b64_value ch of
           None \<Rightarrow> a2b_scan quad_pos pads leftchar rest
         | Some v \<Rightarrow>
             (if quad_pos = 0 then a2b_scan 1 0 v rest
              else if quad_pos = 1 then
                (case a2b_scan 2 0 (v mod 16) rest of
                   (out, q) \<Rightarrow> ((leftchar * 4 + v div 16) # out, q))
              else if quad_pos = 2 then
                (case a2b_scan 3 0 (v mod 4) rest of
                   (out, q) \<Rightarrow> ((leftchar * 16 + v div 4) # out, q))
              else
                (case a2b_scan 0 0 0 rest of
                   (out, q) \<Rightarrow> ((leftchar * 64 + v) # out, q)))))"

fun decimal :: "nat \<Rightarrow> string" where
  "decimal n = (if n < 10 then [char_of (48 + n)] else decimal (n div 10) @ [char_of (48 + n mod 10)])"

definition ref_b64decode :: "bytes \<Rightarrow> exn + bytes" where
  "ref_b64decode bs =
     (case a2b_scan 0 0 0 bs of
        (out, q) \<Rightarrow>
          if q = 0 then Inr (map of_nat out)
          else if q = 1 then
            Inl (BinasciiError (''Invalid base64-encoded string: number of data characters (''
                   @ decimal (length out div 3 * 4 + 1)
                   @ '') cannot be 1 more than a multiple of 4''))
          else Inl (BinasciiError ''Incorrect padding''))"

text \<open>
  UTF-8 for the code points up to 255. A sequence that is not UTF-8, or that encodes a
  code point a \<open>string\<close> cannot hold, is answered with \<open>UnicodeDecodeError\<close> (whose
  message here is not Python's).
\<close>

definition utf8_of_char :: "char \<Rightarrow> bytes" where
  "utf8_of_char c =
     (let n = (of_char c :: nat)
      in if n < 128 then [of_nat n] else [of_nat (192 + n div 64), of_nat (128 + n mod 64)])"

definition ref_str_encode :: "string \<Rightarrow> exn + bytes" where
  "ref_str_encode s = Inr (concat (map utf8_of_char s))"

fun utf8_chars :: "nat list \<Rightarrow> string option" where
  "utf8_chars [] = Some []"
| "utf8_chars [a] = (if a < 128 then Some [char_of a] else None)"
| "utf8_chars (a # b # rest) =
     (if a < 128 then map_option ((#) (char_of a)) (utf8_chars (b # rest))
      else if (a = 194 \<or> a = 195) \<and> 128 \<le> b \<and> b < 192
        then map_option ((#) (char_of ((a - 192) * 64 + (b - 128)))) (utf8_chars rest)
      else None)"

definition ref_bytes_decode :: "bytes \<Rightarrow> exn + string" where
  "ref_bytes_decode bs =
     (case utf8_chars (map unat bs) of
        None \<Rightarrow> Inl (UnicodeDecodeError ''utf-8 codec cannot decode the bytes'')
      | Some s \<Rightarrow> Inr s)"

definition standin_stream :: "bytes \<Rightarrow> bytes \<Rightarrow> nat \<Rightarrow> byte" where
  "standin_stream k n i = (k ! (i mod length k) XOR n ! (i mod length n)) + of_nat i"

definition standin_crypt :: "bytes \<Rightarrow> bytes \<Rightarrow> bytes \<Rightarrow> bytes" where
  "standin_crypt k n d = map (\<lambda>(i, b). b XOR standin_stream k n i) (enumerate 0 d)"

definition standin_tag :: "bytes \<Rightarrow> bytes \<Rightarrow> bytes \<Rightarrow> bytes" where
  "standin_tag k n c =
     map (\<lambda>j. of_nat (sum_list (map (\<lambda>(i, b). (i + j + 1) * unat b) (enumerate 0 c)))
               + standin_stream k n j)
       [0 ..< 16]"

definition ref_aesgcm_encrypt :: "bytes \<Rightarrow> bytes \<Rightarrow> bytes \<Rightarrow> exn + bytes" where
  "ref_aesgcm_encrypt k n d =
     (if length k \<notin> {16, 24, 32} then Inl aesgcm_key_error
      else if 2147483647 < length d
        then Inl (OverflowError ''Data or associated data too long. Max 2**31 - 1 bytes'')
      else if length n < 8 \<or> 128 < length n then Inl aesgcm_nonce_error
      else (let c = standin_crypt k n d in Inr (c @ standin_tag k n c)))"

definition ref_aesgcm_decrypt :: "bytes \<Rightarrow> bytes \<Rightarrow> bytes \<Rightarrow> exn + bytes" where
  "ref_aesgcm_decrypt k n d =
     (if length k \<notin> {16, 24, 32} then Inl aesgcm_key_error
      else if length n < 8 \<or> 128 < length n then Inl aesgcm_nonce_error
      else if length d < 16 then Inl InvalidTag
      else (let c = take (length d - 16) d; t = drop (length d - 16) d
            in if t = standin_tag k n c then Inr (standin_crypt k n c) else Inl InvalidTag))"

definition pem_header :: string where
  "pem_header = ''-----BEGIN PUBLIC KEY-----''"

definition pem_footer :: string where
  "pem_footer = ''-----END PUBLIC KEY-----''"

definition ref_public_bytes :: "rsa_public_key \<Rightarrow> key_encoding \<Rightarrow> public_format \<Rightarrow> exn + bytes" where
  "ref_public_bytes key enc fmt =
     Inr (map of_char pem_header @ ref_b64encode [of_nat (pub_modulus key)] @ map of_char pem_footer)"

definition ref_key_attr ::
  "string \<Rightarrow> (rsa_public_key \<Rightarrow> key_encoding \<Rightarrow> public_format \<Rightarrow> exn + bytes) option" where
  "ref_key_attr name = (if name = ''public_bytes'' then Some ref_public_bytes else None)"

definition ref_load_pem_public_key :: "bytes \<Rightarrow> exn + rsa_public_key" where
  "ref_load_pem_public_key pem =
     (let h = length pem_header; f = length pem_footer
      in if take h pem = map of_char pem_header \<and> drop (length pem - f) pem = map of_char pem_footer
         then (case ref_b64decode (take (length pem - f - h) (drop h pem)) of
                 Inr [b] \<Rightarrow> Inr (RSAPublicKey (unat b) 65537)
               | _ \<Rightarrow> Inl (ValueError ''Unable to load PEM file''))
         else Inl (ValueError ''Unable to load PEM file''))"

definition ref_oaep_encrypt :: "rsa_public_key \<Rightarrow> bytes \<Rightarrow> exn + bytes" where
  "ref_oaep_encrypt key m = Inr (of_nat (pub_modulus key) # map (\<lambda>b. b + 1) m)"

definition ref_oaep_decrypt :: "rsa_private_key \<Rightarrow> bytes \<Rightarrow> exn + bytes" where
  "ref_oaep_decrypt key c =
     (case c of
        [] \<Rightarrow> Inl (ValueError ''Decryption failed'')
      | b # m \<Rightarrow>
          if b = of_nat (priv_modulus key) then Inr (map (\<lambda>b. b - 1) m)
          else Inl (ValueError ''Decryption failed''))"

definition ref_lib :: pylib where
  "ref_lib =
     \<lparr> str_encode = ref_str_encode,
       bytes_decode = ref_bytes_decode,
       urlsafe_b64encode = ref_b64encode,
       urlsafe_b64decode = ref_b64decode,
       aesgcm_encrypt = ref_aesgcm_encrypt,
       aesgcm_decrypt = ref_aesgcm_decrypt,
       key_attr = ref_key_attr,
       key_type_name = ''RSAPublicKey'',
       load_pem_public_key = ref_load_pem_public_key,
       oaep_encrypt = ref_oaep_encrypt,
       oaep_decrypt = ref_oaep_decrypt \<rparr>"

text \<open>
  JSON for the flat objects of strings the protocol's messages are, in the layout
  \<open>json.dumps\<close> writes (\<open>", "\<close> and \<open>": "\<close>); strings are taken to need no escaping.
  A name that comes twice keeps its first place and its last value, as in a Python dict.
  Any other text is answered with the \<open>JSONDecodeError\<close> of a text that does not start
  a JSON value.
\<close>

definition json_expecting_value :: exn where
  "json_expecting_value = JSONDecodeError ''Expecting value: line 1 column 1 (char 0)''"

fun split_on :: "char \<Rightarrow> string \<Rightarrow> string list" where
  "split_on c [] = [[]]"
| "split_on c (x # xs) =
     (case split_on c xs of
        y # ys \<Rightarrow> if x = c then [] # y # ys else (x # y) # ys
      | [] \<Rightarrow> [[]])"

fun flat_members :: "string list \<Rightarrow> (string \<times> json) list option" where
  "flat_members [k, colon, v, close] =
     (if colon = '': '' \<and> close = ''}'' then Some [(k, JStr v)] else None)"
| "flat_members (k # colon # v # comma # rest) =
     (if colon = '': '' \<and> comma = '', '' then map_option ((#) (k, JStr v)) (flat_members rest)
      else None)"
| "flat_members _ = None"

fun dict_set :: "(string \<times> json) list \<Rightarrow> string \<Rightarrow> json \<Rightarrow> (string \<times> json) list" where
  "dict_set [] k v = [(k, v)]"
| "dict_set ((k', v') # ms) k v = (if k' = k then (k, v) # ms else (k', v') # dict_set ms k v)"

definition ref_json_loads :: "string \<Rightarrow> exn + json" where
  "ref_json_loads s =
     (case split_on (CHR 0x22) s of
        opening # rest \<Rightarrow>
          (if opening = ''{'' then
             (case flat_members rest of
                None \<Rightarrow> Inl json_expecting_value
              | Some ms \<Rightarrow> Inr (JObj (foldl (\<lambda>d (k, v). dict_set d k v) [] ms)))
           else Inl json_expecting_value)
      | [] \<Rightarrow> Inl json_expecting_value)"

definition quoted :: "string \<Rightarrow> string" where
  "quoted s = [CHR 0x22] @ s @ [CHR 0x22]"

fun dumps_value :: "json \<Rightarrow> string" where
  "dumps_value (JStr s) = quoted s"
| "dumps_value (JNum i) = (if i < 0 then ''-'' @ decimal (nat (- i)) else decimal (nat i))"
| "dumps_value (JBool b) = (if b then ''true'' else ''false'')"
| "dumps_value _ = ''null''"

fun dumps_members :: "(string \<times> json) list \<Rightarrow> string" where
  "dumps_members [] = []"
| "dumps_members [(k, v)] = quoted k @ '': '' @ dumps_value v"
| "dumps_members ((k, v) # ms) = quoted k @ '': '' @ dumps_value v @ '', '' @ dumps_members ms"

definition ref_json_dumps :: "json \<Rightarrow> string" where
  "ref_json_dumps v = (case v of JObj ms \<Rightarrow> ''{'' @ dumps_members ms @ ''}'' | _ \<Rightarrow> dumps_value v)"

definition ref_json :: jsonlib where
  "ref_json = \<lparr> json_loads = ref_json_loads, json_dumps = ref_json_dumps \<rparr>"

section \<open>Concrete inputs\<close>

text \<open>The inputs the theorems below are run on.\<close>

definition example_entropy :: os_entropy where
  "example_entropy = \<lparr> source = (\<lambda>i. of_nat (i * 7 + 3)), consumed = 0 \<rparr>"

definition example_key :: bytes where
  "example_key = [1, 2, 3, 4, 5, 6, 7, 8, 9, 10, 11, 12, 13, 14, 15, 16]"

definition example_nonce :: bytes where
  "example_nonce = [3, 10, 17, 24, 31, 38, 45, 52, 59, 66, 73, 80]"

definition fresh_session :: CryptoSession where
  "fresh_session = CryptoSession_init (RSAPrivateKey 77 5)"

definition example_session :: CryptoSession where
  "example_session = fresh_session\<lparr>aes_key := Some example_key\<rparr>"

definition empty_key_session :: CryptoSession where
  "empty_key_session = fresh_session\<lparr>aes_key := Some []\<rparr>"

text \<open>What a peer sends as \<open>encrypted_aes_key\<close> when it encrypted the empty key.\<close>

definition empty_key_sealed :: string where
  "empty_key_sealed = ''TQ==''"

text \<open>
  The plaintext \<open>hi\<close> sealed under the example key and nonce, and the empty plaintext
  sealed. The first sixteen characters of a sealed text encode the nonce. Three texts
  differ from the sealed empty plaintext in one bit of one later character: in
  \<open>tampered_sealed\<close> the character at index 17 is \<open>w\<close> for \<open>g\<close> (bit 4), which
  flips bit 0 of the first tag byte; in \<open>padding_flipped_sealed\<close> the character at
  index 37 is \<open>7\<close> for \<open>w\<close> (bit 6), which changes only bits that the decoder drops;
  in \<open>broken_sealed\<close> the character at index 16 is \<open>@\<close> for \<open>A\<close> (bit 0), which is
  no base64 character.
\<close>

definition hi_plaintext :: string where
  "hi_plaintext = ''hi''"

definition hi_ciphertext :: bytes where
  "hi_ciphertext = [106, 96, 44, 253, 210, 167, 112, 65, 22, 243, 180, 149, 90, 63, 188, 125, 98, 23]"

definition hi_sealed :: string where
  "hi_sealed = ''AwoRGB8mLTQ7QklQamAs_dKncEEW87SVWj-8fWIX''"

definition empty_ciphertext :: bytes where
  "empty_ciphertext = [2, 9, 20, 31, 30, 37, 48, 67, 58, 81, 76, 103, 26, 17, 44, 23]"

definition empty_sealed :: string where
  "empty_sealed = ''AwoRGB8mLTQ7QklQAgkUHx4lMEM6UUxnGhEsFw==''"

definition tampered_ciphertext :: bytes where
  "tampered_ciphertext = [3, 9, 20, 31, 30, 37, 48, 67, 58, 81, 76, 103, 26, 17, 44, 23]"

definition tampered_sealed :: string where
  "tampered_sealed = ''AwoRGB8mLTQ7QklQAwkUHx4lMEM6UUxnGhEsFw==''"

definition padding_flipped_sealed :: string where
  "padding_flipped_sealed = ''AwoRGB8mLTQ7QklQAgkUHx4lMEM6UUxnGhEsF7==''"

definition broken_sealed :: string where
  "broken_sealed = ''AwoRGB8mLTQ7QklQ@gkUHx4lMEM6UUxnGhEsFw==''"

definition broken_sealed_error :: exn where
  "broken_sealed_error =
     BinasciiError ''Invalid base64-encoded string: number of data characters (37) cannot be 1 more than a multiple of 4''"

text \<open>Texts that decode to nine bytes and to seven bytes, all of them zero.\<close>

definition nine_zero_bytes :: bytes where
  "nine_zero_bytes = [0, 0, 0, 0, 0, 0, 0, 0, 0]"

definition nine_zero_text :: string where
  "nine_zero_text = ''AAAAAAAAAAAA''"

definition seven_zero_bytes :: bytes where
  "seven_zero_bytes = [0, 0, 0, 0, 0, 0, 0]"

definition seven_zero_text :: string where
  "seven_zero_text = ''AAAAAAAAAA==''"

text \<open>
  A compute node with one session, \<open>s1\<close>, whose channel is open: before any key
  arrived, and with the example key in place. The messages are the texts a client
  sends: two \<open>send_aes_key\<close> messages that carry different keys (the example key, and
  sixteen bytes of 9), and \<open>encrypted_task\<close> messages carrying the sealed \<open>hi\<close> and
  the tampered text.
\<close>

definition second_key :: bytes where
  "second_key = [9, 9, 9, 9, 9, 9, 9, 9, 9, 9, 9, 9, 9, 9, 9, 9]"

definition first_key_sealed :: string where
  "first_key_sealed = ''TQIDBAUGBwgJCgsMDQ4PEBE=''"

definition second_key_sealed :: string where
  "second_key_sealed = ''TQoKCgoKCgoKCgoKCgoKCgo=''"

definition first_aes_key_message :: string where
  \<open>first_aes_key_message =
     ''{"type": "key_exchange", "action": "send_aes_key", "encrypted_aes_key": "TQIDBAUGBwgJCgsMDQ4PEBE="}''\<close>

definition second_aes_key_message :: string where
  \<open>second_aes_key_message =
     ''{"type": "key_exchange", "action": "send_aes_key", "encrypted_aes_key": "TQoKCgoKCgoKCgoKCgoKCgo="}''\<close>

definition task_message :: string where
  \<open>task_message =
     ''{"type": "encrypted_task", "encrypted_data": "AwoRGB8mLTQ7QklQamAs_dKncEEW87SVWj-8fWIX"}''\<close>

definition tampered_task_message :: string where
  \<open>tampered_task_message =
     ''{"type": "encrypted_task", "encrypted_data": "AwoRGB8mLTQ7QklQAwkUHx4lMEM6UUxnGhEsFw=="}''\<close>


definition open_channel :: data_channel where
  "open_channel = \<lparr> ready_open = True, sent = [] \<rparr>"

definition waiting_session :: session_data where
  "waiting_session = \<lparr> channel = open_channel, crypto = fresh_session, remote_public_key = None \<rparr>"

definition keyed_session :: session_data where
  "keyed_session = \<lparr> channel = open_channel, crypto = example_session, remote_public_key = None \<rparr>"

definition waiting_node :: node where
  "waiting_node =
     \<lparr> sessions = [''s1'' \<mapsto> waiting_session], docker_available = False, reconnect_count = 0 \<rparr>"

definition keyed_node :: node where
  "keyed_node =
     \<lparr> sessions = [''s1'' \<mapsto> keyed_session], docker_available = True, reconnect_count = 0 \<rparr>"

text \<open>
  Hosts: one on which the container never finishes, one whose temporary directory is
  full, one on which the Docker daemon cannot be reached (the \<open>docker\<close> client then
  prints its complaint and exits with 125, its code for not having run the container),
  one on which the client is ended by a hangup signal before it printed anything
  (a process ended by signal 1 has the return code \<open>-1\<close>), and one whose \<open>docker\<close>
  client turns down a command line with \<open>--timeout=30\<close> on it, a flag that
  \<open>docker run\<close> does not have, again with 125, and runs every other.
\<close>

definition hanging_host :: sandbox_env where
  "hanging_host =
     \<lparr> named_temporary_file = Inr ''/tmp/tmpk3x9.py'',
       write_and_close = (\<lambda>temp_file code. None),
       wait_for_run_command = (\<lambda>cmd. WaitTimedOut),
       time_at_start = 0, time_at_end = 35000000 \<rparr>"

definition full_host :: sandbox_env where
  "full_host =
     \<lparr> named_temporary_file = Inr ''/tmp/tmpk3x9.py'',
       write_and_close = (\<lambda>temp_file code. Some (OSError ''[Errno 28] No space left on device'')),
       wait_for_run_command = (\<lambda>cmd. WaitTimedOut),
       time_at_start = 0, time_at_end = 1000 \<rparr>"

definition daemon_down_message :: string where
  "daemon_down_message =
     ''docker: Cannot connect to the Docker daemon at unix:///var/run/docker.sock. Is the docker daemon running?''"

definition daemon_down_host :: sandbox_env where
  "daemon_down_host =
     \<lparr> named_temporary_file = Inr ''/tmp/tmpk3x9.py'',
       write_and_close = (\<lambda>temp_file code. None),
       wait_for_run_command =
         (\<lambda>cmd. Finished \<lparr> returncode = 125, cmd_stdout = [], cmd_stderr = daemon_down_message \<rparr>),
       time_at_start = 0, time_at_end = 120000 \<rparr>"

definition hangup_host :: sandbox_env where
  "hangup_host =
     \<lparr> named_temporary_file = Inr ''/tmp/tmpk3x9.py'',
       write_and_close = (\<lambda>temp_file code. None),
       wait_for_run_command =
         (\<lambda>cmd. Finished \<lparr> returncode = - 1, cmd_stdout = [], cmd_stderr = [] \<rparr>),
       time_at_start = 0, time_at_end = 90000 \<rparr>"

definition unknown_flag_message :: string where
  "unknown_flag_message =
     ''unknown flag: --timeout'' @ [CHR 0x0A] @ ''See '' @ py_repr ''docker run --help'' @ ''.''
       @ [CHR 0x0A]"

definition strict_docker_host :: sandbox_env where
  "strict_docker_host =
     \<lparr> named_temporary_file = Inr ''/tmp/tmpk3x9.py'',
       write_and_close = (\<lambda>temp_file code. None),
       wait_for_run_command =
         (\<lambda>cmd. if ''--timeout=30'' \<in> set cmd
                then Finished \<lparr> returncode = 125, cmd_stdout = [], cmd_stderr = unknown_flag_message \<rparr>
                else Finished \<lparr> returncode = 0, cmd_stdout = ''2'' @ [CHR 0x0A], cmd_stderr = [] \<rparr>),
       time_at_start = 0, time_at_end = 150000 \<rparr>"



section \<open>Properties of CryptoSession\<close>

lemma not_aes_key_None: "aes_key s = None \<Longrightarrow> not_aes_key s"
  by (simp add: not_aes_key_def)

lemma not_aes_key_Some: "aes_key s = Some k \<Longrightarrow> not_aes_key s = (k = [])"
  by (simp add: not_aes_key_def)

lemma length_os_urandom: "length (fst (os_urandom n os)) = n"
  by (simp add: os_urandom_def)

lemma decrypt_payload_alt:
  "decrypt_payload L s e =
     (if not_aes_key s then Inl not_initialized
      else case decrypt_try L s e of
        Inl x \<Rightarrow> Inl (if x = InvalidTag then integrity_failed else x)
      | Inr p \<Rightarrow> Inr p)"
  by (simp add: decrypt_payload_def split: sum.splits exn.splits)

lemma decrypt_try_decoded:
  assumes "aes_key s = Some k" "str_encode L e = Inr b" "urlsafe_b64decode L b = Inr raw"
  shows "decrypt_try L s e =
           (case aesgcm_decrypt L k (take 12 raw) (drop 12 raw) of
              Inl x \<Rightarrow> Inl x
            | Inr pt \<Rightarrow> bytes_decode L pt)"
  using assms by (simp add: decrypt_try_def)

lemma decrypt_payload_decoded:
  assumes "aes_key s = Some k" "k \<noteq> []" "str_encode L e = Inr b" "urlsafe_b64decode L b = Inr raw"
  shows "decrypt_payload L s e =
           (case (case aesgcm_decrypt L k (take 12 raw) (drop 12 raw) of
                    Inl x \<Rightarrow> Inl x
                  | Inr pt \<Rightarrow> bytes_decode L pt) of
              Inl x \<Rightarrow> Inl (if x = InvalidTag then integrity_failed else x)
            | Inr p \<Rightarrow> Inr p)"
  using assms(1,2)
  by (simp add: decrypt_payload_alt not_aes_key_def decrypt_try_decoded [OF assms(1,3,4)])

lemma decrypt_payload_undecodable:
  assumes "aes_key s = Some k" "k \<noteq> []" "str_encode L e = Inr b" "urlsafe_b64decode L b = Inl x"
  shows "decrypt_payload L s e = Inl (if x = InvalidTag then integrity_failed else x)"
  using assms by (simp add: decrypt_payload_alt not_aes_key_def decrypt_try_def)

lemma decrypt_payload_same_bytes:
  assumes "aes_key s = Some k" "k \<noteq> []"
    and "str_encode L e = Inr b" "urlsafe_b64decode L b = Inr raw"
    and "str_encode L e' = Inr b'" "urlsafe_b64decode L b' = Inr raw"
  shows "decrypt_payload L s e' = decrypt_payload L s e"
  by (simp only: decrypt_payload_decoded [OF assms(1,2,3,4)] decrypt_payload_decoded [OF assms(1,2,5,6)])

lemma encrypt_payload_keyed:
  assumes "aes_key s = Some k" "k \<noteq> []"
  shows "encrypt_payload L os s P =
           (case str_encode L P of
              Inl x \<Rightarrow> (Inl x, os)
            | Inr pb \<Rightarrow>
                (case aesgcm_encrypt L k (fst (os_urandom 12 os)) pb of
                   Inl x \<Rightarrow> (Inl x, snd (os_urandom 12 os))
                 | Inr ct \<Rightarrow>
                     (bytes_decode L (urlsafe_b64encode L (fst (os_urandom 12 os) @ ct)),
                      snd (os_urandom 12 os))))"
  using assms
  by (simp add: encrypt_payload_def not_aes_key_def split_def Let_def split: sum.splits)

lemma encrypt_payload_Inr_keyed:
  assumes "encrypt_payload L os s P = (Inr sealed, os')"
  shows "\<exists>k. aes_key s = Some k \<and> k \<noteq> []"
  using assms
  by (cases "aes_key s") (auto simp: encrypt_payload_def not_aes_key_def split: if_splits)

text \<open>
  A key that was set to the empty byte string does not pass the guard
  \<open>if not self.aes_key\<close>: to both functions the session is one without a key.
\<close>

lemma empty_key_not_initialized:
  assumes "aes_key s = Some []"
  shows "encrypt_payload L os s P = (Inl not_initialized, os)"
    and "decrypt_payload L s e = Inl not_initialized"
  using assms by (simp_all add: encrypt_payload_def decrypt_payload_def not_aes_key_def)

text \<open>The key that \<open>generate_and_encrypt_aes_key\<close> stores is 32 bytes long and passes the guard.\<close>

lemma generated_key_passes_guard:
  "aes_key (fst (snd (generate_and_encrypt_aes_key L os s pem))) = Some (fst (os_urandom 32 os))"
  "length (fst (os_urandom 32 os)) = 32"
  "\<not> not_aes_key (fst (snd (generate_and_encrypt_aes_key L os s pem)))"
proof -
  show stored: "aes_key (fst (snd (generate_and_encrypt_aes_key L os s pem)))
                  = Some (fst (os_urandom 32 os))"
    by (simp add: generate_and_encrypt_aes_key_def split_def Let_def split: sum.splits)
  show len: "length (fst (os_urandom 32 os)) = 32"
    by (rule length_os_urandom)
  from len have "fst (os_urandom 32 os) \<noteq> []"
    by auto
  with stored show "\<not> not_aes_key (fst (snd (generate_and_encrypt_aes_key L os s pem)))"
    by (simp add: not_aes_key_def)
qed

text \<open>The reference library makes the argument checks that \<open>AESGCM\<close> documents.\<close>

lemma ref_lib_decrypt_checks: "aesgcm_decrypt_checks ref_lib"
  by (auto simp: aesgcm_decrypt_checks_def aesgcm_decrypt_refusal_def ref_lib_def
        ref_aesgcm_decrypt_def split: if_splits)

subsection \<open>The example calls, evaluated\<close>

lemma example_nonce_drawn: "fst (os_urandom 12 example_entropy) = example_nonce"
  by code_simp

lemma example_entropy_after:
  "snd (os_urandom 12 example_entropy) = example_entropy\<lparr>consumed := 12\<rparr>"
  by (simp add: os_urandom_def example_entropy_def)

lemma example_keys:
  "aes_key fresh_session = None"
  "aes_key example_session = Some example_key"
  "aes_key empty_key_session = Some []"
  "example_key \<noteq> []"
  by (simp_all add: fresh_session_def example_session_def empty_key_session_def
        CryptoSession_init_def example_key_def)

lemma example_lengths:
  "length example_key = 16" "length example_nonce = 12" "length nine_zero_bytes = 9"
  "length hi_ciphertext = 18" "length empty_ciphertext = 16" "length tampered_ciphertext = 16"
  "length seven_zero_bytes = 7"
  by (simp_all add: example_key_def example_nonce_def nine_zero_bytes_def hi_ciphertext_def
        empty_ciphertext_def tampered_ciphertext_def seven_zero_bytes_def)

lemma hi_utf8:
  "str_encode ref_lib hi_plaintext = Inr [104, 105]"
  "bytes_decode ref_lib [104, 105] = Inr hi_plaintext"
  by code_simp+

lemma hi_standin:
  "standin_crypt example_key example_nonce [104, 105] = take 2 hi_ciphertext"
  "standin_crypt example_key example_nonce (take 2 hi_ciphertext) = [104, 105]"
  "standin_tag example_key example_nonce (take 2 hi_ciphertext) = drop 2 hi_ciphertext"
  by code_simp+

lemma hi_aead:
  "aesgcm_encrypt ref_lib example_key example_nonce [104, 105] = Inr hi_ciphertext"
  "aesgcm_decrypt ref_lib example_key example_nonce hi_ciphertext = Inr [104, 105]"
  by (simp_all add: ref_lib_def ref_aesgcm_encrypt_def ref_aesgcm_decrypt_def hi_standin
        example_lengths aesgcm_key_error_def aesgcm_nonce_error_def)

lemma hi_b64:
  "bytes_decode ref_lib (urlsafe_b64encode ref_lib (example_nonce @ hi_ciphertext)) = Inr hi_sealed"
  "str_encode ref_lib hi_sealed = Inr (urlsafe_b64encode ref_lib (example_nonce @ hi_ciphertext))"
  "urlsafe_b64decode ref_lib (urlsafe_b64encode ref_lib (example_nonce @ hi_ciphertext))
     = Inr (example_nonce @ hi_ciphertext)"
  by code_simp+

lemma empty_utf8:
  "str_encode ref_lib [] = Inr []"
  "bytes_decode ref_lib [] = Inr []"
  by code_simp+

lemma empty_standin:
  "standin_crypt example_key example_nonce [] = []"
  "standin_tag example_key example_nonce [] = empty_ciphertext"
  by code_simp+

lemma empty_aead:
  "aesgcm_encrypt ref_lib example_key example_nonce [] = Inr empty_ciphertext"
  "aesgcm_decrypt ref_lib example_key example_nonce empty_ciphertext = Inr []"
  by (simp_all add: ref_lib_def ref_aesgcm_encrypt_def ref_aesgcm_decrypt_def empty_standin
        example_lengths)

lemma empty_b64:
  "bytes_decode ref_lib (urlsafe_b64encode ref_lib (example_nonce @ empty_ciphertext)) = Inr empty_sealed"
  "str_encode ref_lib empty_sealed = Inr (map of_char empty_sealed)"
  "urlsafe_b64decode ref_lib (map of_char empty_sealed) = Inr (example_nonce @ empty_ciphertext)"
  by code_simp+

lemma tampered_b64:
  "str_encode ref_lib tampered_sealed = Inr (map of_char tampered_sealed)"
  "urlsafe_b64decode ref_lib (map of_char tampered_sealed) = Inr (example_nonce @ tampered_ciphertext)"
  by code_simp+

lemma padding_flipped_b64:
  "str_encode ref_lib padding_flipped_sealed = Inr (map of_char padding_flipped_sealed)"
  "urlsafe_b64decode ref_lib (map of_char padding_flipped_sealed) = Inr (example_nonce @ empty_ciphertext)"
  by code_simp+

lemma broken_b64:
  "str_encode ref_lib broken_sealed = Inr (map of_char broken_sealed)"
  "urlsafe_b64decode ref_lib (map of_char broken_sealed) = Inl broken_sealed_error"
  by code_simp+

text \<open>Each of the three changed texts differs from the sealed text in one bit of one character.\<close>

lemma changed_texts_one_bit:
  "(map of_char tampered_sealed :: bytes)
     = (map of_char empty_sealed)[17 := map of_char empty_sealed ! 17 XOR push_bit 4 1]"
  "(map of_char padding_flipped_sealed :: bytes)
     = (map of_char empty_sealed)[37 := map of_char empty_sealed ! 37 XOR push_bit 6 1]"
  "(map of_char broken_sealed :: bytes)
     = (map of_char empty_sealed)[16 := map of_char empty_sealed ! 16 XOR push_bit 0 1]"
  by code_simp+

lemma tampered_is_flipped:
  "(example_nonce @ empty_ciphertext)[12 := (example_nonce @ empty_ciphertext) ! 12 XOR push_bit 0 1]
     = example_nonce @ tampered_ciphertext"
  "(drop 12 (example_nonce @ empty_ciphertext))[12 - 12 := (example_nonce @ empty_ciphertext) ! 12 XOR push_bit 0 1]
     = tampered_ciphertext"
  "take 12 (example_nonce @ empty_ciphertext) = example_nonce"
  by (simp_all add: example_nonce_def empty_ciphertext_def tampered_ciphertext_def)

lemma tampered_refused:
  "aesgcm_decrypt ref_lib example_key example_nonce tampered_ciphertext = Inl InvalidTag"
  by (simp add: ref_lib_def ref_aesgcm_decrypt_def example_lengths empty_standin)
     (simp add: tampered_ciphertext_def empty_ciphertext_def)

lemma hi_sealed_call:
  "encrypt_payload ref_lib example_entropy example_session hi_plaintext =
     (Inr hi_sealed, example_entropy\<lparr>consumed := 12\<rparr>)"
  by (simp add: encrypt_payload_keyed [OF example_keys(2) example_keys(4)] hi_utf8
        example_nonce_drawn hi_aead hi_b64 example_entropy_after)

lemma empty_sealed_call:
  "encrypt_payload ref_lib example_entropy example_session [] =
     (Inr empty_sealed, example_entropy\<lparr>consumed := 12\<rparr>)"
  by (simp add: encrypt_payload_keyed [OF example_keys(2) example_keys(4)] empty_utf8
        example_nonce_drawn empty_aead empty_b64 example_entropy_after)

lemma empty_sealed_unsealed:
  "decrypt_payload ref_lib example_session empty_sealed = Inr []"
  by (simp add: decrypt_payload_decoded [OF example_keys(2) example_keys(4) empty_b64(2,3)]
        example_lengths empty_aead empty_utf8)

lemma padding_flipped_unsealed:
  "decrypt_payload ref_lib example_session padding_flipped_sealed = Inr []"
  by (simp add: decrypt_payload_decoded [OF example_keys(2) example_keys(4) padding_flipped_b64]
        example_lengths empty_aead empty_utf8)

lemma broken_sealed_raises:
  "decrypt_payload ref_lib example_session broken_sealed = Inl broken_sealed_error"
  "broken_sealed_error \<noteq> integrity_failed"
  by (simp_all add: decrypt_payload_undecodable [OF example_keys(2) example_keys(4) broken_b64]
        broken_sealed_error_def integrity_failed_def)

lemma tampered_sealed_refused:
  "decrypt_payload ref_lib example_session tampered_sealed = Inl integrity_failed"
  by (simp add: decrypt_payload_decoded [OF example_keys(2) example_keys(4) tampered_b64]
        example_lengths tampered_refused)

lemma nine_zero_decoded:
  "str_encode ref_lib nine_zero_text = Inr (map of_char nine_zero_text)"
  "urlsafe_b64decode ref_lib (map of_char nine_zero_text) = Inr nine_zero_bytes"
  by code_simp+

lemma seven_zero_decoded:
  "str_encode ref_lib seven_zero_text = Inr (map of_char seven_zero_text)"
  "urlsafe_b64decode ref_lib (map of_char seven_zero_text) = Inr seven_zero_bytes"
  by code_simp+

lemma empty_text_decoded: "urlsafe_b64decode ref_lib [] = Inr []"
  by code_simp

lemma empty_nonce_refused:
  "aesgcm_decrypt ref_lib example_key [] [] = Inl aesgcm_nonce_error"
  by (simp add: ref_lib_def ref_aesgcm_decrypt_def example_lengths)

lemma aead_errors_differ:
  "aesgcm_nonce_error \<noteq> InvalidTag" "aesgcm_nonce_error \<noteq> integrity_failed"
  "aesgcm_key_error \<noteq> InvalidTag" "aesgcm_key_error \<noteq> integrity_failed"
  by (simp_all add: aesgcm_nonce_error_def aesgcm_key_error_def integrity_failed_def)

text \<open>
  \<open>exchange_aes_key\<close> stores whatever the RSA decryption returns, an empty key too;
  the session is then one that the guard of \<open>encrypt_payload\<close> and \<open>decrypt_payload\<close>
  turns away.
\<close>

lemma empty_key_exchanged:
  "exchange_aes_key ref_lib fresh_session empty_key_sealed = (None, empty_key_session)"
proof -
  have "str_encode ref_lib empty_key_sealed = Inr (map of_char empty_key_sealed)"
    "urlsafe_b64decode ref_lib (map of_char empty_key_sealed) = Inr [77]"
    by code_simp+
  moreover have "oaep_decrypt ref_lib (private_key fresh_session) [77] = Inr []"
    by (simp add: ref_lib_def ref_oaep_decrypt_def fresh_session_def CryptoSession_init_def)
  ultimately show ?thesis
    by (simp add: exchange_aes_key_def decrypt_rsa_def empty_key_session_def)
qed

section \<open>The claims about CryptoSession\<close>

text \<open>
  C4. While the symmetric key has not been set, \<open>encrypt_payload\<close> and
  \<open>decrypt_payload\<close> both fail with the not-initialized \<open>ValueError\<close>, whatever the
  libraries and the arguments are; sealing does not even draw a nonce.
\<close>

theorem seal_unseal_before_key:
  assumes "aes_key s = None"
  shows "encrypt_payload L os s plaintext = (Inl not_initialized, os)
         \<and> decrypt_payload L s encrypted_b64 = Inl not_initialized
         \<and> not_initialized = ValueError ''AES key not initialized. Perform key exchange first.''"
  using assms
  by (simp add: encrypt_payload_def decrypt_payload_def not_aes_key_def not_initialized_def)

theorem seal_unseal_before_key_witness:
  "aes_key fresh_session = None
   \<and> encrypt_payload ref_lib example_entropy fresh_session hi_plaintext
       = (Inl not_initialized, example_entropy)
   \<and> decrypt_payload ref_lib fresh_session hi_sealed = Inl not_initialized"
  using seal_unseal_before_key [of fresh_session ref_lib example_entropy hi_plaintext hi_sealed]
  by (simp add: example_keys)

text \<open>
  C1. Take a session whose key has been set: to the code that is a session that passes
  the guard \<open>if not self.aes_key\<close> of both functions, one whose key is there and is not
  the empty byte string. Sealing a plaintext and unsealing the result gives the plaintext
  back, the library calls on the way doing their part: the plaintext encodes to UTF-8 and
  back, the AEAD encrypts it under the drawn nonce and decrypts that again, and base64url
  decodes what it encoded. \<open>encrypt_payload\<close> returns a sealed text and \<open>decrypt_payload\<close>
  of that text returns the plaintext: the key is the same on both sides, the nonce sits
  in front of the ciphertext and is twelve bytes long, so the split at twelve finds both
  again.
\<close>

theorem seal_unseal_roundtrip:
  assumes key: "aes_key s = Some k" "k \<noteq> []"
    and utf8: "str_encode L P = Inr pb" "bytes_decode L pb = Inr P"
    and aead: "aesgcm_encrypt L k (fst (os_urandom 12 os)) pb = Inr ct"
              "aesgcm_decrypt L k (fst (os_urandom 12 os)) ct = Inr pb"
    and b64: "bytes_decode L (urlsafe_b64encode L (fst (os_urandom 12 os) @ ct)) = Inr sealed"
             "str_encode L sealed = Inr (urlsafe_b64encode L (fst (os_urandom 12 os) @ ct))"
             "urlsafe_b64decode L (urlsafe_b64encode L (fst (os_urandom 12 os) @ ct))
                = Inr (fst (os_urandom 12 os) @ ct)"
  shows "encrypt_payload L os s P = (Inr sealed, snd (os_urandom 12 os))
         \<and> decrypt_payload L s sealed = Inr P"
proof -
  have len: "length (fst (os_urandom 12 os)) = 12"
    by (rule length_os_urandom)
  have enc: "encrypt_payload L os s P = (Inr sealed, snd (os_urandom 12 os))"
    using utf8 aead b64 by (simp add: encrypt_payload_keyed [OF key])
  have "decrypt_try L s sealed = Inr P"
    using len utf8 aead by (simp add: decrypt_try_decoded [OF key(1) b64(2) b64(3)])
  then have "decrypt_payload L s sealed = Inr P"
    using key by (simp add: decrypt_payload_alt not_aes_key_def)
  with enc show ?thesis by simp
qed

theorem seal_unseal_roundtrip_witness:
  "encrypt_payload ref_lib example_entropy example_session hi_plaintext
     = (Inr hi_sealed, snd (os_urandom 12 example_entropy))
   \<and> decrypt_payload ref_lib example_session hi_sealed = Inr hi_plaintext"
  by (rule seal_unseal_roundtrip [where k = example_key and pb = "[104, 105]" and ct = hi_ciphertext])
     (simp_all only: example_keys example_nonce_drawn hi_utf8 hi_aead hi_b64 not_False_eq_True)

text \<open>
  C5. What \<open>encrypt_payload\<close> returns is the text of base64url applied to the nonce
  followed by what the AEAD returned (ciphertext with its tag), where the nonce is the
  next twelve bytes of the system's entropy: each call draws its own twelve bytes and
  moves the source on, so the call after it draws the twelve bytes that follow.
  \<open>decrypt_payload\<close> hands the AEAD exactly the first twelve decoded bytes as nonce and
  all the rest as ciphertext.
\<close>

theorem sealed_wire_format:
  assumes key: "aes_key s = Some k" "k \<noteq> []"
  shows "(\<forall>sealed os'. encrypt_payload L os s P = (Inr sealed, os') \<longrightarrow>
            (\<exists>pb ct. str_encode L P = Inr pb
               \<and> aesgcm_encrypt L k (fst (os_urandom 12 os)) pb = Inr ct
               \<and> bytes_decode L (urlsafe_b64encode L (fst (os_urandom 12 os) @ ct)) = Inr sealed
               \<and> os' = snd (os_urandom 12 os)))
       \<and> length (fst (os_urandom 12 os)) = 12
       \<and> fst (os_urandom 12 os) = map (source os) [consumed os ..< consumed os + 12]
       \<and> fst (os_urandom 12 (snd (os_urandom 12 os)))
           = map (source os) [consumed os + 12 ..< consumed os + 24]
       \<and> (\<forall>e b n c. str_encode L e = Inr b \<longrightarrow> urlsafe_b64decode L b = Inr (n @ c) \<longrightarrow>
             length n = 12 \<longrightarrow>
             decrypt_payload L s e =
               (case (case aesgcm_decrypt L k n c of
                        Inl x \<Rightarrow> Inl x
                      | Inr pt \<Rightarrow> bytes_decode L pt) of
                  Inl x \<Rightarrow> Inl (if x = InvalidTag then integrity_failed else x)
                | Inr p \<Rightarrow> Inr p))"
proof -
  have seal: "\<forall>sealed os'. encrypt_payload L os s P = (Inr sealed, os') \<longrightarrow>
            (\<exists>pb ct. str_encode L P = Inr pb
               \<and> aesgcm_encrypt L k (fst (os_urandom 12 os)) pb = Inr ct
               \<and> bytes_decode L (urlsafe_b64encode L (fst (os_urandom 12 os) @ ct)) = Inr sealed
               \<and> os' = snd (os_urandom 12 os))"
    by (auto simp: encrypt_payload_keyed [OF key] split: sum.splits)
  have draw: "fst (os_urandom 12 os) = map (source os) [consumed os ..< consumed os + 12]"
    by (simp add: os_urandom_def)
  have next_draw: "fst (os_urandom 12 (snd (os_urandom 12 os)))
           = map (source os) [consumed os + 12 ..< consumed os + 24]"
    by (simp add: os_urandom_def add.commute)
  have unseal: "\<forall>e b n c. str_encode L e = Inr b \<longrightarrow> urlsafe_b64decode L b = Inr (n @ c) \<longrightarrow>
             length n = 12 \<longrightarrow>
             decrypt_payload L s e =
               (case (case aesgcm_decrypt L k n c of
                        Inl x \<Rightarrow> Inl x
                      | Inr pt \<Rightarrow> bytes_decode L pt) of
                  Inl x \<Rightarrow> Inl (if x = InvalidTag then integrity_failed else x)
                | Inr p \<Rightarrow> Inr p)"
  proof (intro allI impI)
    fix e b n c
    assume "str_encode L e = Inr b" "urlsafe_b64decode L b = Inr (n @ c)" "length n = 12"
    then show "decrypt_payload L s e =
               (case (case aesgcm_decrypt L k n c of
                        Inl x \<Rightarrow> Inl x
                      | Inr pt \<Rightarrow> bytes_decode L pt) of
                  Inl x \<Rightarrow> Inl (if x = InvalidTag then integrity_failed else x)
                | Inr p \<Rightarrow> Inr p)"
      using decrypt_payload_decoded [OF key, of L e b "n @ c"] by simp
  qed
  from seal draw next_draw unseal length_os_urandom [of 12 os] show ?thesis
    by blast
qed

theorem sealed_wire_format_witness:
  "encrypt_payload ref_lib example_entropy example_session hi_plaintext
     = (Inr hi_sealed, example_entropy\<lparr>consumed := 12\<rparr>)
   \<and> bytes_decode ref_lib (urlsafe_b64encode ref_lib (example_nonce @ hi_ciphertext)) = Inr hi_sealed
   \<and> length example_nonce = 12
   \<and> decrypt_payload ref_lib example_session hi_sealed = Inr hi_plaintext"
proof -
  note fmt = sealed_wire_format [OF example_keys(2) example_keys(4), of ref_lib example_entropy hi_plaintext]
  from fmt hi_sealed_call obtain pb ct where
    "str_encode ref_lib hi_plaintext = Inr pb"
    "aesgcm_encrypt ref_lib example_key (fst (os_urandom 12 example_entropy)) pb = Inr ct"
    "bytes_decode ref_lib (urlsafe_b64encode ref_lib (fst (os_urandom 12 example_entropy) @ ct))
       = Inr hi_sealed"
    by blast
  then have sealed_text:
    "bytes_decode ref_lib (urlsafe_b64encode ref_lib (example_nonce @ hi_ciphertext)) = Inr hi_sealed"
    by (auto simp: hi_utf8 example_nonce_drawn hi_aead)
  from fmt have len: "length example_nonce = 12"
    by (simp add: example_nonce_drawn)
  from fmt hi_b64(2,3) len
  have "decrypt_payload ref_lib example_session hi_sealed =
      (case (case aesgcm_decrypt ref_lib example_key example_nonce hi_ciphertext of
               Inl x \<Rightarrow> Inl x
             | Inr pt \<Rightarrow> bytes_decode ref_lib pt) of
         Inl x \<Rightarrow> Inl (if x = InvalidTag then integrity_failed else x)
       | Inr p \<Rightarrow> Inr p)"
    by blast
  then have "decrypt_payload ref_lib example_session hi_sealed = Inr hi_plaintext"
    by (simp add: hi_aead hi_utf8)
  with hi_sealed_call sealed_text len show ?thesis by simp
qed

text \<open>
  C2, as the code has it. Let a text decode to the bytes \<open>raw\<close> (a sealed payload does),
  and let \<open>tampered\<close> be a changed text.

  If \<open>tampered\<close> decodes to \<open>raw\<close> with one bit of one byte flipped, from the thirteenth
  byte on (the ciphertext and its tag), then \<open>decrypt_payload\<close> hands the AEAD the
  untouched nonce and the ciphertext with that bit flipped, and its result is that of
  the AEAD: when the AEAD refuses with \<open>InvalidTag\<close> (which is what an AEAD is for),
  \<open>decrypt_payload\<close> raises the integrity \<open>ValueError\<close>.

  If \<open>tampered\<close> does not decode, the \<open>binascii.Error\<close> of the decoder is raised again
  as it is; it is not the integrity error.

  If \<open>tampered\<close> decodes to the same bytes \<open>raw\<close>, then \<open>decrypt_payload\<close> does with it
  exactly what it does with the unchanged text: the change is not noticed.
\<close>

theorem tamper_detection:
  assumes key: "aes_key s = Some k" "k \<noteq> []"
    and decoded: "str_encode L sealed = Inr sb" "urlsafe_b64decode L sb = Inr raw"
    and position: "12 \<le> i" "i < length raw" "j < 8"
    and tampered: "str_encode L tampered = Inr tb"
  shows "(urlsafe_b64decode L tb = Inr (raw[i := raw ! i XOR push_bit j 1]) \<longrightarrow>
            decrypt_payload L s tampered =
              (case (case aesgcm_decrypt L k (take 12 raw)
                            ((drop 12 raw)[i - 12 := raw ! i XOR push_bit j 1]) of
                       Inl x \<Rightarrow> Inl x
                     | Inr pt \<Rightarrow> bytes_decode L pt) of
                 Inl x \<Rightarrow> Inl (if x = InvalidTag then integrity_failed else x)
               | Inr p \<Rightarrow> Inr p)
            \<and> (aesgcm_decrypt L k (take 12 raw)
                   ((drop 12 raw)[i - 12 := raw ! i XOR push_bit j 1]) = Inl InvalidTag \<longrightarrow>
                 decrypt_payload L s tampered = Inl integrity_failed))
       \<and> (\<forall>m. urlsafe_b64decode L tb = Inl (BinasciiError m) \<longrightarrow>
             decrypt_payload L s tampered = Inl (BinasciiError m)
             \<and> decrypt_payload L s tampered \<noteq> Inl integrity_failed)
       \<and> (urlsafe_b64decode L tb = Inr raw \<longrightarrow>
             decrypt_payload L s tampered = decrypt_payload L s sealed)"
proof -
  have nonce: "take 12 (raw[i := y]) = take 12 raw" for y
    using position by simp
  have rest: "drop 12 (raw[i := y]) = (drop 12 raw)[i - 12 := y]" for y
    using position by (simp add: drop_update_swap)
  have flipped: "decrypt_payload L s tampered =
              (case (case aesgcm_decrypt L k (take 12 raw)
                            ((drop 12 raw)[i - 12 := raw ! i XOR push_bit j 1]) of
                       Inl x \<Rightarrow> Inl x
                     | Inr pt \<Rightarrow> bytes_decode L pt) of
                 Inl x \<Rightarrow> Inl (if x = InvalidTag then integrity_failed else x)
               | Inr p \<Rightarrow> Inr p)"
    if "urlsafe_b64decode L tb = Inr (raw[i := raw ! i XOR push_bit j 1])"
    by (simp only: decrypt_payload_decoded [OF key tampered that] nonce rest)
  have detected: "decrypt_payload L s tampered = Inl integrity_failed"
    if "urlsafe_b64decode L tb = Inr (raw[i := raw ! i XOR push_bit j 1])"
      and "aesgcm_decrypt L k (take 12 raw)
             ((drop 12 raw)[i - 12 := raw ! i XOR push_bit j 1]) = Inl InvalidTag"
    by (simp only: flipped [OF that(1)] that(2) sum.case if_True simp_thms)
  have undecodable: "decrypt_payload L s tampered = Inl (BinasciiError m)
             \<and> decrypt_payload L s tampered \<noteq> Inl integrity_failed"
    if "urlsafe_b64decode L tb = Inl (BinasciiError m)" for m
    by (simp add: decrypt_payload_undecodable [OF key tampered that] integrity_failed_def)
  have same: "decrypt_payload L s tampered = decrypt_payload L s sealed"
    if "urlsafe_b64decode L tb = Inr raw"
    by (rule decrypt_payload_same_bytes [OF key decoded tampered that])
  from flipped detected undecodable same show ?thesis
    by blast
qed

theorem tamper_detection_witness:
  "encrypt_payload ref_lib example_entropy example_session []
     = (Inr empty_sealed, example_entropy\<lparr>consumed := 12\<rparr>)
   \<and> urlsafe_b64decode ref_lib (map of_char tampered_sealed)
       = Inr ((example_nonce @ empty_ciphertext)
                [12 := (example_nonce @ empty_ciphertext) ! 12 XOR push_bit 0 1])
   \<and> decrypt_payload ref_lib example_session tampered_sealed = Inl integrity_failed
   \<and> urlsafe_b64decode ref_lib (map of_char broken_sealed) = Inl broken_sealed_error
   \<and> decrypt_payload ref_lib example_session broken_sealed = Inl broken_sealed_error
   \<and> urlsafe_b64decode ref_lib (map of_char padding_flipped_sealed)
       = Inr (example_nonce @ empty_ciphertext)
   \<and> decrypt_payload ref_lib example_session padding_flipped_sealed
       = decrypt_payload ref_lib example_session empty_sealed"
proof -
  have flipped: "urlsafe_b64decode ref_lib (map of_char tampered_sealed)
      = Inr ((example_nonce @ empty_ciphertext)
               [12 := (example_nonce @ empty_ciphertext) ! 12 XOR push_bit 0 1])"
    by (simp only: tampered_b64 tampered_is_flipped)
  have refused: "aesgcm_decrypt ref_lib example_key
      (take 12 (example_nonce @ empty_ciphertext))
      ((drop 12 (example_nonce @ empty_ciphertext))
         [12 - 12 := (example_nonce @ empty_ciphertext) ! 12 XOR push_bit 0 1]) = Inl InvalidTag"
    by (simp only: tampered_is_flipped tampered_refused)
  have position: "(12::nat) \<le> 12" "12 < length (example_nonce @ empty_ciphertext)" "(0::nat) < 8"
    by (simp_all add: example_lengths)
  have broken: "urlsafe_b64decode ref_lib (map of_char broken_sealed)
      = Inl (BinasciiError ''Invalid base64-encoded string: number of data characters (37) cannot be 1 more than a multiple of 4'')"
    by (simp only: broken_b64 broken_sealed_error_def)
  from tamper_detection [OF example_keys(2) example_keys(4) empty_b64(2,3) position tampered_b64(1)]
    flipped refused
  have one: "decrypt_payload ref_lib example_session tampered_sealed = Inl integrity_failed"
    by blast
  from tamper_detection [OF example_keys(2) example_keys(4) empty_b64(2,3) position broken_b64(1)]
    broken
  have two: "decrypt_payload ref_lib example_session broken_sealed = Inl broken_sealed_error"
    unfolding broken_sealed_error_def by blast
  from tamper_detection [OF example_keys(2) example_keys(4) empty_b64(2,3) position padding_flipped_b64(1)]
    padding_flipped_b64(2)
  have three: "decrypt_payload ref_lib example_session padding_flipped_sealed
       = decrypt_payload ref_lib example_session empty_sealed"
    by blast
  from empty_sealed_call flipped one broken_b64(2) two padding_flipped_b64(2) three
  show ?thesis by blast
qed

text \<open>
  C2 as stated fails. The sealed empty plaintext is forty characters long, the first
  sixteen of which encode the nonce. Flipping bit 6 of the character at index 37 gives a
  text that decodes to the same bytes, and \<open>decrypt_payload\<close> returns the plaintext:
  nothing fails. Flipping bit 0 of the character at index 16 gives a text that does not
  decode, and \<open>decrypt_payload\<close> raises the decoder's \<open>binascii.Error\<close>, not the
  integrity error.
\<close>

theorem tamper_text_flip_counterexample:
  "encrypt_payload ref_lib example_entropy example_session []
     = (Inr empty_sealed, example_entropy\<lparr>consumed := 12\<rparr>)
   \<and> (map of_char padding_flipped_sealed :: bytes)
       = (map of_char empty_sealed)[37 := map of_char empty_sealed ! 37 XOR push_bit 6 1]
   \<and> decrypt_payload ref_lib example_session padding_flipped_sealed = Inr []
   \<and> (map of_char broken_sealed :: bytes)
       = (map of_char empty_sealed)[16 := map of_char empty_sealed ! 16 XOR push_bit 0 1]
   \<and> decrypt_payload ref_lib example_session broken_sealed = Inl broken_sealed_error
   \<and> broken_sealed_error \<noteq> integrity_failed"
  using empty_sealed_call changed_texts_one_bit(2,3) padding_flipped_unsealed broken_sealed_raises
  by blast

text \<open>
  C10, as the code has it. Let the session hold an AES key (16, 24 or 32 bytes) and let
  the library make the argument checks \<open>AESGCM\<close> documents. When fewer than twelve bytes
  were decoded, the slices do not raise: the nonce is all of the decoded bytes and the
  ciphertext is empty. The call never returns a plaintext. It raises the integrity
  \<open>ValueError\<close> when eight to eleven bytes were decoded (the empty ciphertext cannot hold
  a tag), and \<open>AESGCM\<close>'s own \<open>ValueError\<close> about the length of the nonce when fewer
  than eight were.
\<close>

theorem short_input_unseal:
  assumes key: "aes_key s = Some k" "length k \<in> {16, 24, 32}"
    and checks: "aesgcm_decrypt_checks L"
    and decoded: "str_encode L e = Inr b" "urlsafe_b64decode L b = Inr raw"
    and short: "length raw < 12"
  shows "take 12 raw = raw \<and> drop 12 raw = []
         \<and> decrypt_payload L s e =
             Inl (if length raw < 8 then aesgcm_nonce_error else integrity_failed)
         \<and> (\<forall>p. decrypt_payload L s e \<noteq> Inr p)"
proof -
  from key(2) have nonempty: "k \<noteq> []"
    by auto
  have "aesgcm_decrypt_refusal k raw [] =
      Some (if length raw < 8 then aesgcm_nonce_error else InvalidTag)"
    using key(2) short by (auto simp: aesgcm_decrypt_refusal_def)
  with checks have answer: "aesgcm_decrypt L k raw [] =
      Inl (if length raw < 8 then aesgcm_nonce_error else InvalidTag)"
    unfolding aesgcm_decrypt_checks_def by blast
  have slices: "take 12 raw = raw" "drop 12 raw = []"
    using short by simp_all
  have result: "decrypt_payload L s e =
      Inl (if length raw < 8 then aesgcm_nonce_error else integrity_failed)"
    by (simp add: decrypt_payload_decoded [OF key(1) nonempty decoded] slices answer
          aead_errors_differ)
  then have "\<forall>p. decrypt_payload L s e \<noteq> Inr p"
    by simp
  with slices result show ?thesis by simp
qed

theorem short_input_unseal_witness:
  "length nine_zero_bytes < 12
   \<and> urlsafe_b64decode ref_lib (map of_char nine_zero_text) = Inr nine_zero_bytes
   \<and> decrypt_payload ref_lib example_session nine_zero_text = Inl integrity_failed
   \<and> length seven_zero_bytes < 8
   \<and> urlsafe_b64decode ref_lib (map of_char seven_zero_text) = Inr seven_zero_bytes
   \<and> decrypt_payload ref_lib example_session seven_zero_text = Inl aesgcm_nonce_error"
proof -
  have key: "length example_key \<in> {16, 24, 32}"
    by (simp add: example_lengths)
  from short_input_unseal [OF example_keys(2) key ref_lib_decrypt_checks nine_zero_decoded]
  have nine: "decrypt_payload ref_lib example_session nine_zero_text = Inl integrity_failed"
    by (simp add: example_lengths)
  from short_input_unseal [OF example_keys(2) key ref_lib_decrypt_checks seven_zero_decoded]
  have seven: "decrypt_payload ref_lib example_session seven_zero_text = Inl aesgcm_nonce_error"
    by (simp add: example_lengths)
  from nine seven show ?thesis
    by (simp add: example_lengths nine_zero_decoded seven_zero_decoded)
qed

text \<open>
  C10 as stated fails on the empty string: nothing is decoded, the nonce is empty, and
  \<open>AESGCM\<close> rejects a nonce shorter than eight bytes with a \<open>ValueError\<close> of its own
  before it authenticates anything; \<open>decrypt_payload\<close> raises that one again, not the
  integrity error.
\<close>

theorem short_input_empty_counterexample:
  "str_encode ref_lib [] = Inr [] \<and> urlsafe_b64decode ref_lib [] = Inr []
   \<and> decrypt_payload ref_lib example_session []
       = Inl (ValueError ''Nonce must be between 8 and 128 bytes'')
   \<and> ValueError ''Nonce must be between 8 and 128 bytes'' \<noteq> integrity_failed"
  by (simp add: decrypt_payload_decoded [OF example_keys(2) example_keys(4) empty_utf8(1) empty_text_decoded]
        empty_nonce_refused empty_utf8 empty_text_decoded integrity_failed_def aesgcm_nonce_error_def)

lemma get_public_key_pem_no_attribute:
  "key_attr L ''serialize'' = None
     \<Longrightarrow> get_public_key_pem L s = Inl (AttributeError (key_type_name L) ''serialize'')"
  by (simp add: get_public_key_pem_def)

text \<open>
  C3. \<open>get_public_key_pem\<close> calls \<open>self.public_key.serialize(...)\<close>. The public keys of
  the cryptography library have \<open>public_bytes\<close> and no \<open>serialize\<close>: with a library that
  has no such attribute the call raises \<open>AttributeError\<close> for every session, as it does
  on the instance above; had the key the attribute, its PEM bytes decoded would be
  returned.
\<close>

theorem get_public_key_pem_raises:
  "get_public_key_pem ref_lib fresh_session = Inl (AttributeError ''RSAPublicKey'' ''serialize'')"
  by (simp add: get_public_key_pem_def ref_lib_def ref_key_attr_def)

section \<open>The claims about the compute node\<close>

subsection \<open>The handler, branch by branch\<close>

lemma handle_message_send_aes_key:
  assumes "json_loads J message = Inr data"
    and "dict_get data ''type'' = Inr (Some (JStr ''key_exchange''))"
    and "dict_get data ''action'' = Inr (Some (JStr ''send_aes_key''))"
    and "dict_item data ''encrypted_aes_key'' = Inr (JStr e)"
    and "sessions self sid = Some sd"
    and "exchange_aes_key L (crypto sd) e = (None, c)"
  shows "map_option crypto (sessions (fst (snd (handle_message L J env sid message (self, os)))) sid)
           = Some c"
  using assms
  by (simp add: handle_message_def handle_send_aes_key_def exchange_aes_key_json_def
        await_channel_send_def Let_def split: sum.splits)

lemma handle_message_unseal_fails:
  assumes "json_loads J message = Inr data"
    and "dict_get data ''type'' = Inr (Some (JStr ''encrypted_task''))"
    and "sessions self sid = Some sd"
    and "dict_item data ''encrypted_data'' = Inr encrypted_data"
    and "decrypt_payload_json L (crypto sd) encrypted_data = Inl e"
  shows "handle_message L J env sid message (self, os) = (Some e, self, os)"
  using assms
  by (simp add: handle_message_def handle_encrypted_task_def Let_def)

lemma exchange_aes_key_stores:
  assumes "str_encode L e = Inr b" "urlsafe_b64decode L b = Inr c"
    and "oaep_decrypt L (private_key s) c = Inr key"
  shows "exchange_aes_key L s e = (None, s\<lparr>aes_key := Some key\<rparr>)"
  using assms by (simp add: exchange_aes_key_def decrypt_rsa_def)

lemma exchange_aes_key_raises:
  "fst (exchange_aes_key L s e) = Some x \<Longrightarrow> snd (exchange_aes_key L s e) = s"
  by (auto simp: exchange_aes_key_def split: sum.splits)

text \<open>
  No branch of the handler takes a session out of the registry: every \<open>await\<close> of a
  \<open>send\<close> raises after the message was handed over, so the task branch ends there and
  never comes to its step 8.
\<close>

lemma await_channel_send_raises: "fst (await_channel_send sid sd msg self) \<noteq> None"
  by (simp add: await_channel_send_def await_none_def split: sum.splits)

lemma await_channel_send_keeps:
  "sessions self sid \<noteq> None
     \<Longrightarrow> \<exists>y. sessions (snd (await_channel_send sid sd msg self)) sid = Some y"
  by (simp add: await_channel_send_def await_none_def split: sum.splits)

lemma handle_send_public_key_keeps:
  "sessions self sid \<noteq> None
     \<Longrightarrow> \<exists>y. sessions (snd (handle_send_public_key L J sid data sd self)) sid = Some y"
  by (simp add: handle_send_public_key_def Let_def await_channel_send_keeps split: sum.splits)

lemma handle_send_aes_key_keeps:
  "sessions self sid \<noteq> None
     \<Longrightarrow> \<exists>y. sessions (snd (handle_send_aes_key L J sid data sd self)) sid = Some y"
  by (simp add: handle_send_aes_key_def Let_def await_channel_send_keeps
        split: sum.splits prod.splits option.splits)

lemma task_send_keeps:
  assumes "sessions self sid \<noteq> None"
  shows "\<exists>y. sessions (fst (snd (case await_channel_send sid sd msg self of
             (Some e, self1) \<Rightarrow> (Some e, self1, os')
           | (None, self1) \<Rightarrow>
               (case close_and_forget sid self1 of (r, self2) \<Rightarrow> (r, self2, os'))))) sid = Some y"
proof (cases "await_channel_send sid sd msg self")
  case (Pair r self1)
  with await_channel_send_raises [of sid sd msg self] obtain e where r: "r = Some e"
    by (cases r) auto
  from Pair await_channel_send_keeps [OF assms, of sd msg]
  have "\<exists>y. sessions self1 sid = Some y"
    by simp
  with Pair r show ?thesis by simp
qed

lemma handle_encrypted_task_keeps:
  assumes "sessions self sid \<noteq> None"
  shows "\<exists>y. sessions (fst (snd (handle_encrypted_task L J env sid data sd (self, os)))) sid = Some y"
  using assms
  by (simp add: handle_encrypted_task_def Let_def task_send_keeps split: sum.splits prod.splits)

lemma handle_message_keeps_session:
  assumes "sessions self sid = Some sd"
  shows "sessions (fst (snd (handle_message L J env sid message (self, os)))) sid \<noteq> None"
proof -
  from assms have there: "sessions self sid \<noteq> None" by simp
  show ?thesis
    using assms
    by (simp add: handle_message_def Let_def case_prod_beta handle_send_public_key_keeps [OF there]
          handle_send_aes_key_keeps [OF there] handle_encrypted_task_keeps [OF there]
          split: sum.splits)
qed

subsection \<open>The example messages, evaluated\<close>

lemma key_messages_parsed:
  "json_loads ref_json first_aes_key_message =
     Inr (JObj [(''type'', JStr ''key_exchange''), (''action'', JStr ''send_aes_key''),
                (''encrypted_aes_key'', JStr first_key_sealed)])"
  "json_loads ref_json second_aes_key_message =
     Inr (JObj [(''type'', JStr ''key_exchange''), (''action'', JStr ''send_aes_key''),
                (''encrypted_aes_key'', JStr second_key_sealed)])"
  by code_simp+

lemma task_messages_parsed:
  "json_loads ref_json task_message =
     Inr (JObj [(''type'', JStr ''encrypted_task''), (''encrypted_data'', JStr hi_sealed)])"
  "json_loads ref_json tampered_task_message =
     Inr (JObj [(''type'', JStr ''encrypted_task''), (''encrypted_data'', JStr tampered_sealed)])"
  by code_simp+

lemma key_message_fields:
  "dict_get (JObj [(''type'', JStr ''key_exchange''), (''action'', JStr ''send_aes_key''),
                   (''encrypted_aes_key'', JStr e)]) ''type'' = Inr (Some (JStr ''key_exchange''))"
  "dict_get (JObj [(''type'', JStr ''key_exchange''), (''action'', JStr ''send_aes_key''),
                   (''encrypted_aes_key'', JStr e)]) ''action'' = Inr (Some (JStr ''send_aes_key''))"
  "dict_item (JObj [(''type'', JStr ''key_exchange''), (''action'', JStr ''send_aes_key''),
                    (''encrypted_aes_key'', JStr e)]) ''encrypted_aes_key'' = Inr (JStr e)"
  by (simp_all add: dict_get_def dict_item_def)

lemma task_message_fields:
  "dict_get (JObj [(''type'', JStr ''encrypted_task''), (''encrypted_data'', JStr e)]) ''type''
     = Inr (Some (JStr ''encrypted_task''))"
  "dict_item (JObj [(''type'', JStr ''encrypted_task''), (''encrypted_data'', JStr e)]) ''encrypted_data''
     = Inr (JStr e)"
  by (simp_all add: dict_get_def dict_item_def)

lemma key_texts_decoded:
  "str_encode ref_lib first_key_sealed = Inr (map of_char first_key_sealed)"
  "urlsafe_b64decode ref_lib (map of_char first_key_sealed) = Inr (77 # map (\<lambda>b. b + 1) example_key)"
  "str_encode ref_lib second_key_sealed = Inr (map of_char second_key_sealed)"
  "urlsafe_b64decode ref_lib (map of_char second_key_sealed) = Inr (77 # map (\<lambda>b. b + 1) second_key)"
  by code_simp+

lemma key_texts_decrypted:
  "oaep_decrypt ref_lib (RSAPrivateKey 77 5) (77 # map (\<lambda>b. b + 1) k) = Inr k"
  by (simp add: ref_lib_def ref_oaep_decrypt_def comp_def)

lemma example_private_key:
  "private_key fresh_session = RSAPrivateKey 77 5"
  "private_key (fresh_session\<lparr>aes_key := x\<rparr>) = RSAPrivateKey 77 5"
  by (simp_all add: fresh_session_def CryptoSession_init_def)

lemma key_exchanges:
  "exchange_aes_key ref_lib fresh_session first_key_sealed
     = (None, fresh_session\<lparr>aes_key := Some example_key\<rparr>)"
  "exchange_aes_key ref_lib (fresh_session\<lparr>aes_key := Some example_key\<rparr>) second_key_sealed
     = (None, fresh_session\<lparr>aes_key := Some second_key\<rparr>)"
  using exchange_aes_key_stores [OF key_texts_decoded(1,2), where s = fresh_session and key = example_key]
    exchange_aes_key_stores [OF key_texts_decoded(3,4),
      where s = "fresh_session\<lparr>aes_key := Some example_key\<rparr>" and key = second_key]
  by (simp_all add: example_private_key key_texts_decrypted)


lemma example_sessions:
  "sessions waiting_node ''s1'' = Some waiting_session"
  "sessions keyed_node ''s1'' = Some keyed_session"
  "crypto waiting_session = fresh_session"
  "crypto keyed_session = example_session"
  "channel waiting_session = open_channel"
  "channel keyed_session = open_channel"
  by (simp_all add: waiting_node_def keyed_node_def waiting_session_def keyed_session_def)

text \<open>
  C6, as the code has it. The key is absent when the session is created, and it is not
  write-once: every \<open>exchange_aes_key\<close> that decrypts a key stores that key, and every
  \<open>generate_and_encrypt_aes_key\<close> stores thirty-two fresh bytes, whatever the session
  held before; an \<open>exchange_aes_key\<close> that raises leaves the key as it was. The compute
  node calls \<open>exchange_aes_key\<close> on every \<open>send_aes_key\<close> message, so after such a
  message the session holds the key of that message.
\<close>

theorem aes_key_set_by_every_exchange:
  assumes "str_encode L e = Inr b" "urlsafe_b64decode L b = Inr c"
    and "oaep_decrypt L (private_key s) c = Inr key"
  shows "aes_key (CryptoSession_init generated) = None
       \<and> exchange_aes_key L s e = (None, s\<lparr>aes_key := Some key\<rparr>)
       \<and> (\<forall>e' x. fst (exchange_aes_key L s e') = Some x \<longrightarrow> snd (exchange_aes_key L s e') = s)
       \<and> aes_key (fst (snd (generate_and_encrypt_aes_key L os s pem))) = Some (fst (os_urandom 32 os))
       \<and> (\<forall>J env sid message data self sd os'.
             json_loads J message = Inr data \<longrightarrow>
             dict_get data ''type'' = Inr (Some (JStr ''key_exchange'')) \<longrightarrow>
             dict_get data ''action'' = Inr (Some (JStr ''send_aes_key'')) \<longrightarrow>
             dict_item data ''encrypted_aes_key'' = Inr (JStr e) \<longrightarrow>
             sessions self sid = Some sd \<longrightarrow> crypto sd = s \<longrightarrow>
             map_option (aes_key \<circ> crypto)
               (sessions (fst (snd (handle_message L J env sid message (self, os')))) sid)
               = Some (Some key))"
proof -
  have stored: "exchange_aes_key L s e = (None, s\<lparr>aes_key := Some key\<rparr>)"
    using assms by (rule exchange_aes_key_stores)
  have generated: "aes_key (fst (snd (generate_and_encrypt_aes_key L os s pem)))
                     = Some (fst (os_urandom 32 os))"
    by (simp add: generate_and_encrypt_aes_key_def split_def Let_def split: sum.splits)
  have handled: "map_option (aes_key \<circ> crypto)
               (sessions (fst (snd (handle_message L J env sid message (self, os')))) sid)
               = Some (Some key)"
    if "json_loads J message = Inr data"
      "dict_get data ''type'' = Inr (Some (JStr ''key_exchange''))"
      "dict_get data ''action'' = Inr (Some (JStr ''send_aes_key''))"
      "dict_item data ''encrypted_aes_key'' = Inr (JStr e)"
      "sessions self sid = Some sd" "crypto sd = s"
    for J env sid message data self sd os'
  proof -
    have "exchange_aes_key L (crypto sd) e = (None, s\<lparr>aes_key := Some key\<rparr>)"
      using stored that(6) by simp
    from handle_message_send_aes_key [OF that(1-5) this, of env os']
    show ?thesis
      by (auto simp: map_option_case split: option.splits)
  qed
  show ?thesis
    using stored generated handled exchange_aes_key_raises [of L s]
    by (auto simp: CryptoSession_init_def)
qed

theorem aes_key_set_by_every_exchange_witness:
  "aes_key (fresh_session\<lparr>aes_key := Some example_key\<rparr>) = Some example_key
   \<and> exchange_aes_key ref_lib (fresh_session\<lparr>aes_key := Some example_key\<rparr>) second_key_sealed
       = (None, fresh_session\<lparr>aes_key := Some second_key\<rparr>)"
proof -
  have "oaep_decrypt ref_lib (private_key (fresh_session\<lparr>aes_key := Some example_key\<rparr>))
       (77 # map (\<lambda>b. b + 1) second_key) = Inr second_key"
    by (simp only: example_private_key key_texts_decrypted)
  from aes_key_set_by_every_exchange [OF key_texts_decoded(3,4) this]
  show ?thesis by simp
qed

text \<open>
  C6 as stated fails: the compute node that has stored the key of a first
  \<open>send_aes_key\<close> message replaces it with the key of a second one.
\<close>

theorem aes_key_replaced_counterexample:
  "map_option (aes_key \<circ> crypto)
     (sessions (fst (snd (handle_message ref_lib ref_json hanging_host ''s1'' first_aes_key_message
         (waiting_node, example_entropy)))) ''s1'') = Some (Some example_key)
   \<and> map_option (aes_key \<circ> crypto)
     (sessions (fst (snd (handle_message ref_lib ref_json hanging_host ''s1'' second_aes_key_message
         (snd (handle_message ref_lib ref_json hanging_host ''s1'' first_aes_key_message
            (waiting_node, example_entropy)))))) ''s1'') = Some (Some second_key)
   \<and> second_key \<noteq> example_key"
proof -
  let ?st = "handle_message ref_lib ref_json hanging_host ''s1'' first_aes_key_message
               (waiting_node, example_entropy)"
  have first: "map_option crypto (sessions (fst (snd ?st)) ''s1'')
                 = Some (fresh_session\<lparr>aes_key := Some example_key\<rparr>)"
    by (rule handle_message_send_aes_key [OF key_messages_parsed(1) key_message_fields example_sessions(1)])
       (simp add: example_sessions key_exchanges)
  then obtain sd where sd: "sessions (fst (snd ?st)) ''s1'' = Some sd"
      "crypto sd = fresh_session\<lparr>aes_key := Some example_key\<rparr>"
    by (auto simp: map_option_case split: option.splits)
  have "map_option crypto (sessions (fst (snd (handle_message ref_lib ref_json hanging_host ''s1''
            second_aes_key_message (fst (snd ?st), snd (snd ?st))))) ''s1'')
          = Some (fresh_session\<lparr>aes_key := Some second_key\<rparr>)"
    by (rule handle_message_send_aes_key [OF key_messages_parsed(2) key_message_fields sd(1)])
       (simp add: sd key_exchanges)
  then have second: "map_option (aes_key \<circ> crypto)
     (sessions (fst (snd (handle_message ref_lib ref_json hanging_host ''s1'' second_aes_key_message
         (snd ?st)))) ''s1'') = Some (Some second_key)"
    by (auto simp: map_option_case split: option.splits)
  from first have "map_option (aes_key \<circ> crypto) (sessions (fst (snd ?st)) ''s1'')
      = Some (Some example_key)"
    by (auto simp: map_option_case split: option.splits)
  with second show ?thesis
    by (simp add: second_key_def example_key_def)
qed

text \<open>
  C7, as the code has it. When unsealing an \<open>encrypted_task\<close> raises (tampered or
  malformed data, or no key yet), the handler's \<open>except\<close> clause logs the exception and
  the call ends there: no reply is sent, and the session is not torn down: the registry
  still holds it, its channel is as open as before, and nothing else of the node has
  changed.
\<close>

theorem failed_unseal_keeps_session:
  assumes "json_loads J message = Inr data"
    and "dict_get data ''type'' = Inr (Some (JStr ''encrypted_task''))"
    and "sessions self sid = Some sd"
    and "dict_item data ''encrypted_data'' = Inr encrypted_data"
    and "decrypt_payload_json L (crypto sd) encrypted_data = Inl e"
  shows "handle_message L J env sid message (self, os) = (Some e, self, os)"
  using assms by (rule handle_message_unseal_fails)

theorem failed_unseal_keeps_session_witness:
  "decrypt_payload ref_lib example_session tampered_sealed = Inl integrity_failed
   \<and> handle_message ref_lib ref_json hanging_host ''s1'' tampered_task_message
       (keyed_node, example_entropy) = (Some integrity_failed, keyed_node, example_entropy)"
proof -
  have "handle_message ref_lib ref_json hanging_host ''s1'' tampered_task_message
       (keyed_node, example_entropy) = (Some integrity_failed, keyed_node, example_entropy)"
    by (rule failed_unseal_keeps_session
          [OF task_messages_parsed(2) task_message_fields(1) example_sessions(2) task_message_fields(2)])
       (simp add: decrypt_payload_json_def example_sessions tampered_sealed_refused)
  with tampered_sealed_refused show ?thesis by simp
qed

text \<open>
  C7 as stated fails: an \<open>encrypted_task\<close> that arrives before the key raises the
  not-initialized error in the handler, after which the session is still registered and
  its channel still open.
\<close>

theorem failed_unseal_no_teardown_counterexample:
  "handle_message ref_lib ref_json hanging_host ''s1'' task_message (waiting_node, example_entropy)
     = (Some not_initialized, waiting_node, example_entropy)
   \<and> sessions waiting_node ''s1'' = Some waiting_session
   \<and> ready_open (channel waiting_session)"
proof -
  have "handle_message ref_lib ref_json hanging_host ''s1'' task_message (waiting_node, example_entropy)
     = (Some not_initialized, waiting_node, example_entropy)"
    by (rule handle_message_unseal_fails
          [OF task_messages_parsed(1) task_message_fields(1) example_sessions(1) task_message_fields(2)])
       (simp add: decrypt_payload_json_def example_sessions decrypt_payload_def not_aes_key_def
          example_keys)
  then show ?thesis
    by (simp add: example_sessions open_channel_def)
qed


lemma sandbox_except_result:
  "exit_code (sandbox_except env e) = - 1 \<and> stdout (sandbox_except env e) = []
   \<and> stderr (sandbox_except env e) \<noteq> []
   \<and> stderr (sandbox_except env e) =
       (if e = AsyncioTimeoutError then ''Execution timeout (30 seconds)''
        else ''Execution error: '' @ exn_str e)"
  by (simp add: sandbox_except_def)

lemma sandbox_try_finished:
  assumes "named_temporary_file env = Inr temp_file" "write_and_close env temp_file c = None"
    and "wait_for_run_command env (docker_cmd temp_file) = Finished r"
  shows "sandbox_try env (JStr c) = Inr r"
  using assms by (simp add: sandbox_try_def)

lemma example_hosts:
  "sandbox_try hanging_host (JStr c) = Inl AsyncioTimeoutError"
  "sandbox_try full_host (JStr c) = Inl (OSError ''[Errno 28] No space left on device'')"
  "sandbox_try hanging_host (JNum 3) = Inl (TypeError ''write() argument must be str, not int'')"
  "named_temporary_file daemon_down_host = Inr ''/tmp/tmpk3x9.py''"
  "write_and_close daemon_down_host t c = None"
  "wait_for_run_command daemon_down_host cmd
     = Finished \<lparr> returncode = 125, cmd_stdout = [], cmd_stderr = daemon_down_message \<rparr>"
  "named_temporary_file hangup_host = Inr ''/tmp/tmpk3x9.py''"
  "write_and_close hangup_host t c = None"
  "wait_for_run_command hangup_host cmd
     = Finished \<lparr> returncode = - 1, cmd_stdout = [], cmd_stderr = [] \<rparr>"
  by (simp_all add: sandbox_try_def hanging_host_def full_host_def daemon_down_host_def
        hangup_host_def py_type_name_def)

lemma example_host_clocks:
  "time_at_end daemon_down_host - time_at_start daemon_down_host = 120000"
  "time_at_end hangup_host - time_at_start hangup_host = 90000"
  "time_at_end strict_docker_host - time_at_start strict_docker_host = 150000"
  by (simp_all add: daemon_down_host_def hangup_host_def strict_docker_host_def)

text \<open>The command line the executor builds always carries \<open>--timeout=30\<close>.\<close>

lemma docker_cmd_timeout_flag: "''--timeout=30'' \<in> set (docker_cmd temp_file)"
  by (simp add: docker_cmd_def)

lemma strict_docker_host_refuses:
  "named_temporary_file strict_docker_host = Inr ''/tmp/tmpk3x9.py''"
  "write_and_close strict_docker_host t c = None"
  "wait_for_run_command strict_docker_host (docker_cmd temp_file)
     = Finished \<lparr> returncode = 125, cmd_stdout = [], cmd_stderr = unknown_flag_message \<rparr>"
  by (simp_all add: strict_docker_host_def docker_cmd_timeout_flag)

lemma example_docker_flags:
  "\<not> docker_available waiting_node" "docker_available keyed_node"
  by (simp_all add: waiting_node_def keyed_node_def)

text \<open>
  C8, as the code has it. The executor itself answers with exit code \<open>-1\<close>, an empty
  stdout and a stderr that is not empty in three situations. The node's flag
  \<open>docker_available\<close> (set once, when the node starts, from \<open>docker --version\<close>) is
  false: the result is the Docker-not-available sentence with an execution time of 0.
  The body of its \<open>try\<close> raises while the temporary file is made or written or the
  command is started: stderr is \<open>Execution error: \<close> followed by \<open>str(e)\<close>. The wait of
  35 seconds for the command times out: stderr is the timeout sentence.

  In every other run the \<open>try\<close> body has come to its end, which it does when the
  temporary file was written and the \<open>docker\<close> command has finished; the result is
  then that process's return code, stdout and stderr as they are, with the time
  measured: the executor does not look at why the process ended.
\<close>

theorem sandbox_result_cases:
  "(\<not> docker_available self \<longrightarrow>
      execute_in_sandbox self env code task_type =
        \<lparr> exit_code = - 1, stdout = [],
          stderr = ''Docker not available. Please install Docker to enable sandbox execution.'',
          execution_time = 0 \<rparr>)
   \<and> (\<forall>e. docker_available self \<longrightarrow> sandbox_try env code = Inl e \<longrightarrow>
         execute_in_sandbox self env code task_type =
           \<lparr> exit_code = - 1, stdout = [],
             stderr = (if e = AsyncioTimeoutError then ''Execution timeout (30 seconds)''
                       else ''Execution error: '' @ exn_str e),
             execution_time = time_at_end env - time_at_start env \<rparr>
         \<and> stderr (execute_in_sandbox self env code task_type) \<noteq> [])
   \<and> (\<forall>r. docker_available self \<longrightarrow> sandbox_try env code = Inr r \<longrightarrow>
         execute_in_sandbox self env code task_type =
           \<lparr> exit_code = returncode r, stdout = cmd_stdout r, stderr = cmd_stderr r,
             execution_time = time_at_end env - time_at_start env \<rparr>)
   \<and> (\<forall>temp_file c r. code = JStr c \<longrightarrow>
         named_temporary_file env = Inr temp_file \<longrightarrow>
         write_and_close env temp_file c = None \<longrightarrow>
         wait_for_run_command env (docker_cmd temp_file) = Finished r \<longrightarrow>
         sandbox_try env code = Inr r)"
proof -
  have unavailable: "execute_in_sandbox self env code task_type =
        \<lparr> exit_code = - 1, stdout = [],
          stderr = ''Docker not available. Please install Docker to enable sandbox execution.'',
          execution_time = 0 \<rparr>"
    if "\<not> docker_available self"
    using that by (simp add: execute_in_sandbox_def docker_not_available_def)
  have raised: "execute_in_sandbox self env code task_type =
           \<lparr> exit_code = - 1, stdout = [],
             stderr = (if e = AsyncioTimeoutError then ''Execution timeout (30 seconds)''
                       else ''Execution error: '' @ exn_str e),
             execution_time = time_at_end env - time_at_start env \<rparr>
         \<and> stderr (execute_in_sandbox self env code task_type) \<noteq> []"
    if "docker_available self" "sandbox_try env code = Inl e" for e
    using that by (simp add: execute_in_sandbox_def sandbox_except_def)
  have returned: "execute_in_sandbox self env code task_type =
           \<lparr> exit_code = returncode r, stdout = cmd_stdout r, stderr = cmd_stderr r,
             execution_time = time_at_end env - time_at_start env \<rparr>"
    if "docker_available self" "sandbox_try env code = Inr r" for r
    using that by (simp add: execute_in_sandbox_def)
  have finished: "sandbox_try env code = Inr r"
    if "code = JStr c" "named_temporary_file env = Inr temp_file"
      "write_and_close env temp_file c = None"
      "wait_for_run_command env (docker_cmd temp_file) = Finished r" for temp_file c r
    using that(1) sandbox_try_finished [OF that(2,3,4)] by simp
  from unavailable raised returned finished show ?thesis
    by blast
qed

theorem sandbox_result_cases_witness:
  "\<not> docker_available waiting_node
   \<and> execute_in_sandbox waiting_node hanging_host (JStr ''print(1+1)'') (JStr ''python_code'')
       = \<lparr> exit_code = - 1, stdout = [],
           stderr = ''Docker not available. Please install Docker to enable sandbox execution.'',
           execution_time = 0 \<rparr>
   \<and> docker_available keyed_node
   \<and> sandbox_try hanging_host (JStr ''print(1+1)'') = Inl AsyncioTimeoutError
   \<and> execute_in_sandbox keyed_node hanging_host (JStr ''print(1+1)'') (JStr ''python_code'')
       = \<lparr> exit_code = - 1, stdout = [], stderr = ''Execution timeout (30 seconds)'',
           execution_time = time_at_end hanging_host - time_at_start hanging_host \<rparr>
   \<and> sandbox_try full_host (JStr ''print(1+1)'')
       = Inl (OSError ''[Errno 28] No space left on device'')
   \<and> execute_in_sandbox keyed_node full_host (JStr ''print(1+1)'') (JStr ''python_code'')
       = \<lparr> exit_code = - 1, stdout = [],
           stderr = ''Execution error: [Errno 28] No space left on device'',
           execution_time = time_at_end full_host - time_at_start full_host \<rparr>
   \<and> sandbox_try hanging_host (JNum 3)
       = Inl (TypeError ''write() argument must be str, not int'')
   \<and> execute_in_sandbox keyed_node hanging_host (JNum 3) (JStr ''python_code'')
       = \<lparr> exit_code = - 1, stdout = [],
           stderr = ''Execution error: write() argument must be str, not int'',
           execution_time = time_at_end hanging_host - time_at_start hanging_host \<rparr>
   \<and> wait_for_run_command daemon_down_host (docker_cmd ''/tmp/tmpk3x9.py'')
       = Finished \<lparr> returncode = 125, cmd_stdout = [], cmd_stderr = daemon_down_message \<rparr>
   \<and> execute_in_sandbox keyed_node daemon_down_host (JStr ''print(1+1)'') (JStr ''python_code'')
       = \<lparr> exit_code = 125, stdout = [], stderr = daemon_down_message,
           execution_time = time_at_end daemon_down_host - time_at_start daemon_down_host \<rparr>"
proof -
  note cases = sandbox_result_cases [where task_type = "JStr ''python_code''"]
  from cases [of waiting_node hanging_host "JStr ''print(1+1)''"] example_docker_flags(1)
  have one: "execute_in_sandbox waiting_node hanging_host (JStr ''print(1+1)'') (JStr ''python_code'')
       = \<lparr> exit_code = - 1, stdout = [],
           stderr = ''Docker not available. Please install Docker to enable sandbox execution.'',
           execution_time = 0 \<rparr>"
    by blast
  from cases [of keyed_node hanging_host "JStr ''print(1+1)''"] example_docker_flags(2)
    example_hosts(1) [of "''print(1+1)''"]
  have two: "execute_in_sandbox keyed_node hanging_host (JStr ''print(1+1)'') (JStr ''python_code'')
       = \<lparr> exit_code = - 1, stdout = [],
           stderr = (if AsyncioTimeoutError = AsyncioTimeoutError then ''Execution timeout (30 seconds)''
                     else ''Execution error: '' @ exn_str AsyncioTimeoutError),
           execution_time = time_at_end hanging_host - time_at_start hanging_host \<rparr>"
    by blast
  from cases [of keyed_node full_host "JStr ''print(1+1)''"] example_docker_flags(2)
    example_hosts(2) [of "''print(1+1)''"]
  have three: "execute_in_sandbox keyed_node full_host (JStr ''print(1+1)'') (JStr ''python_code'')
       = \<lparr> exit_code = - 1, stdout = [],
           stderr = (if OSError ''[Errno 28] No space left on device'' = AsyncioTimeoutError
                     then ''Execution timeout (30 seconds)''
                     else ''Execution error: '' @ exn_str (OSError ''[Errno 28] No space left on device'')),
           execution_time = time_at_end full_host - time_at_start full_host \<rparr>"
    by blast
  from cases [of keyed_node hanging_host "JNum 3"] example_docker_flags(2) example_hosts(3)
  have four: "execute_in_sandbox keyed_node hanging_host (JNum 3) (JStr ''python_code'')
       = \<lparr> exit_code = - 1, stdout = [],
           stderr = (if TypeError ''write() argument must be str, not int'' = AsyncioTimeoutError
                     then ''Execution timeout (30 seconds)''
                     else ''Execution error: '' @ exn_str (TypeError ''write() argument must be str, not int'')),
           execution_time = time_at_end hanging_host - time_at_start hanging_host \<rparr>"
    by blast
  from cases [of keyed_node daemon_down_host "JStr ''print(1+1)''"] example_docker_flags(2)
    example_hosts(4) example_hosts(5) [of "''/tmp/tmpk3x9.py''" "''print(1+1)''"]
    example_hosts(6) [of "docker_cmd ''/tmp/tmpk3x9.py''"]
  have five: "execute_in_sandbox keyed_node daemon_down_host (JStr ''print(1+1)'') (JStr ''python_code'')
       = \<lparr> exit_code = returncode \<lparr> returncode = 125, cmd_stdout = [], cmd_stderr = daemon_down_message \<rparr>,
           stdout = cmd_stdout \<lparr> returncode = 125, cmd_stdout = [], cmd_stderr = daemon_down_message \<rparr>,
           stderr = cmd_stderr \<lparr> returncode = 125, cmd_stdout = [], cmd_stderr = daemon_down_message \<rparr>,
           execution_time = time_at_end daemon_down_host - time_at_start daemon_down_host \<rparr>"
    by blast
  from one two three four five example_docker_flags example_hosts(1,2,3,6)
  show ?thesis
    by (simp add: exn_str_def)
qed

text \<open>
  C8 as stated fails. On a host where Docker is installed and its daemon cannot be
  reached, the task cannot be attempted, and the result has exit code 125, the code
  with which the \<open>docker\<close> client ended, not \<open>-1\<close>. The same holds where the client
  turns down the flag \<open>--timeout=30\<close> that the executor puts on every command line. And
  where the client is ended by a hangup signal the result has exit code \<open>-1\<close> and an
  empty stderr.
\<close>

theorem sandbox_exit_code_counterexample:
  "docker_available keyed_node
   \<and> execute_in_sandbox keyed_node daemon_down_host (JStr ''print(1+1)'') (JStr ''python_code'')
       = \<lparr> exit_code = 125, stdout = [], stderr = daemon_down_message, execution_time = 120000 \<rparr>
   \<and> execute_in_sandbox keyed_node strict_docker_host (JStr ''print(1+1)'') (JStr ''python_code'')
       = \<lparr> exit_code = 125, stdout = [], stderr = unknown_flag_message, execution_time = 150000 \<rparr>
   \<and> execute_in_sandbox keyed_node hangup_host (JStr ''print(1+1)'') (JStr ''python_code'')
       = \<lparr> exit_code = - 1, stdout = [], stderr = [], execution_time = 90000 \<rparr>"
  by (simp add: execute_in_sandbox_def example_docker_flags example_host_clocks
        sandbox_try_finished [OF example_hosts(4) example_hosts(5) example_hosts(6)]
        sandbox_try_finished [OF strict_docker_host_refuses]
        sandbox_try_finished [OF example_hosts(7) example_hosts(8) example_hosts(9)])





end
